theory Spec2Isabelle
  imports Main
begin

section \<open>The Gmail tool server (src/mcp_server/gmail/index.js)\<close>

text \<open>
  A shallow embedding of the tool server. JavaScript strings are modelled as \<open>string\<close>
  (a list of 8-bit characters): the text of a message stands for the bytes that
  \<open>Buffer.from\<close> makes of it, which is exact for ASCII text. A value that may be
  \<open>undefined\<close> is an \<open>option\<close>. A thrown exception is the \<open>Inl\<close> of a sum, and
  every function that touches the file system, the clock or the network takes the
  world and returns it.
\<close>

subsection \<open>JavaScript values\<close>

text \<open>Truthiness of a string that may be undefined: the empty string is falsy.\<close>

definition truthy :: "string option \<Rightarrow> bool" where
  "truthy v = (case v of None \<Rightarrow> False | Some s \<Rightarrow> s \<noteq> [])"

text \<open>Truthiness of a number that may be undefined: zero is falsy.\<close>

definition truthy_num :: "int option \<Rightarrow> bool" where
  "truthy_num v = (case v of None \<Rightarrow> False | Some n \<Rightarrow> n \<noteq> 0)"

text \<open>\<open>a || b\<close> on strings that may be undefined.\<close>

definition or_else :: "string option \<Rightarrow> string option \<Rightarrow> string option" where
  "or_else a b = (if truthy a then a else b)"

text \<open>An \<open>Error\<close> object: its message, and the numeric \<open>code\<close> that HTTP failures carry.\<close>

record js_error =
  err_message :: string
  err_code :: "int option"

definition Error :: "string \<Rightarrow> js_error" where
  "Error msg = \<lparr>err_message = msg, err_code = None\<rparr>"

text \<open>\<open>String.prototype.includes\<close>: the argument occurs as a contiguous run.\<close>

fun starts_with :: "string \<Rightarrow> string \<Rightarrow> bool" where
  "starts_with s [] = True"
| "starts_with [] (p # ps) = False"
| "starts_with (c # cs) (p # ps) = (c = p \<and> starts_with cs ps)"

fun js_includes :: "string \<Rightarrow> string \<Rightarrow> bool" where
  "js_includes [] sub = (sub = [])"
| "js_includes (c # cs) sub = (starts_with (c # cs) sub \<or> js_includes cs sub)"

subsection \<open>The credential bundle and the files\<close>

text \<open>
  The token file holds \<open>{ access_token, refresh_token, expiry_date, ... }\<close>; the
  \<open>tokens\<close> event of the OAuth client delivers an object of the same shape. Only the
  three fields the code reads are modelled.
\<close>

record token =
  refresh_token :: "string option"
  access_token :: "string option"
  expiry_date :: "int option"

record client_keys =
  client_id :: string
  client_secret :: string

record credentials =
  installed :: "client_keys option"
  web :: "client_keys option"

record oauth2_client =
  oc_keys :: client_keys
  oc_credentials :: token

subsection \<open>Requests to the provider\<close>

text \<open>
  The request objects the handlers pass to the Gmail client, one record per endpoint.
  A field the handler may leave \<open>undefined\<close> is an option.
\<close>

record list_params =
  lp_maxResults :: int
  lp_q :: string
  lp_labelIds :: "string list option"

record get_params =
  gp_id :: "string option"
  gp_format :: string
  gp_metadataHeaders :: "string list option"

record modify_params =
  mp_id :: string
  mp_addLabelIds :: "string list option"
  mp_removeLabelIds :: "string list option"

record batch_params =
  bp_ids :: "string list option"
  bp_addLabelIds :: "string list"
  bp_removeLabelIds :: "string list"

record send_params =
  sp_raw :: string
  sp_threadId :: "string option"

record label_color =
  lc_backgroundColor :: "string option"
  lc_textColor :: "string option"

record label_body =
  lb_name :: "string option"
  lb_labelListVisibility :: string
  lb_messageListVisibility :: string
  lb_color :: "label_color option"

text \<open>
  Every call the program makes on the provider's clients, in the order it is made: the
  requests of the handlers to the mail API and, last, the call of \<open>refreshAccessToken\<close>
  on the OAuth client (line 77), which asks the token endpoint for a new access token.
  What the client library sends for a call, and when, is the library's business.
\<close>

datatype net_call =
    MessagesList list_params
  | MessagesGet get_params
  | MessagesTrash string
  | MessagesModify modify_params
  | MessagesBatchModify batch_params
  | MessagesSend send_params
  | LabelsList
  | LabelsCreate label_body
  | LabelsDelete "string option"
  | RefreshAccessToken

type_synonym history = "net_call list"

fun is_gmail_call :: "net_call \<Rightarrow> bool" where
  "is_gmail_call RefreshAccessToken = False"
| "is_gmail_call c = True"

subsection \<open>Responses of the provider\<close>

record msg_ref =
  mr_id :: string
  mr_threadId :: string

record list_data =
  ld_messages :: "msg_ref list option"
  ld_resultSizeEstimate :: "int option"

record header =
  h_name :: string
  h_value :: string

record part =
  pt_mimeType :: string
  pt_body_data :: "string option"

record payload =
  pl_headers :: "header list"
  pl_body_data :: "string option"
  pl_parts :: "part list option"

record message_data =
  md_id :: string
  md_threadId :: string
  md_labelIds :: "string list"
  md_snippet :: string
  md_payload :: payload

record label_data =
  lbl_id :: string
  lbl_name :: string
  lbl_type :: string

record send_data =
  sd_id :: string
  sd_threadId :: string

subsection \<open>Results of the tools\<close>

record email_summary =
  es_id :: string
  es_threadId :: string
  es_from :: string
  es_subject :: string
  es_date :: string
  es_snippet :: string

record list_result =
  lr_emails :: "email_summary list"
  lr_totalResults :: "int option"

record email_detail =
  ed_id :: string
  ed_threadId :: string
  ed_from :: string
  ed_to :: string
  ed_subject :: string
  ed_date :: string
  ed_body :: string
  ed_labels :: "string list"

text \<open>One entry of a per-item operation: \<open>{ id, status }\<close> or \<open>{ id, status: 'error', error }\<close>.\<close>

record item_result =
  ir_id :: string
  ir_status :: string
  ir_error :: "string option"

record items_result =
  its_count :: nat
  its_results :: "item_result list"

record batch_result =
  br_success :: bool
  br_count :: nat
  br_addedLabels :: "string list"
  br_removedLabels :: "string list"

record send_result =
  sr_success :: bool
  sr_messageId :: string
  sr_threadId :: string
  sr_to :: string
  sr_subject :: string
  sr_attachmentsCount :: nat

datatype tool_result =
    ListResult list_result
  | GetResult email_detail
  | UnreadCount int
  | Labels "label_data list"
  | Trashed items_result
  | Marked items_result
  | CreatedLabel label_data
  | DeletedLabel "string option"
  | Modified items_result
  | BatchModified batch_result
  | Sent send_result

subsection \<open>The platform and the world\<close>

text \<open>
  What the code calls and does not define: the JSON reader and writer, the faults the
  runtime raises, the base64 reader of \<open>Buffer\<close>, and the endpoints of the provider.
  Each endpoint sees the client and the requests issued so far, so a provider may answer
  the same request differently at different times.
\<close>

datatype runtime_fault = DestructureUndefined | NotIterable | LengthOfUndefined

record platform =
  parse_credentials :: "string \<Rightarrow> js_error + credentials"
  parse_token :: "string \<Rightarrow> js_error + token"
  stringify_token :: "token \<Rightarrow> string"
  stringify_result :: "tool_result \<Rightarrow> string"
  runtime_error :: "runtime_fault \<Rightarrow> js_error"
  decode_base64_utf8 :: "string \<Rightarrow> string"
  refreshAccessToken :: "oauth2_client \<Rightarrow> history \<Rightarrow> js_error + token"
  messages_list :: "oauth2_client \<Rightarrow> history \<Rightarrow> list_params \<Rightarrow> js_error + list_data"
  messages_get :: "oauth2_client \<Rightarrow> history \<Rightarrow> get_params \<Rightarrow> js_error + message_data"
  messages_trash :: "oauth2_client \<Rightarrow> history \<Rightarrow> string \<Rightarrow> js_error + unit"
  messages_modify :: "oauth2_client \<Rightarrow> history \<Rightarrow> modify_params \<Rightarrow> js_error + unit"
  messages_batchModify :: "oauth2_client \<Rightarrow> history \<Rightarrow> batch_params \<Rightarrow> js_error + unit"
  messages_send :: "oauth2_client \<Rightarrow> history \<Rightarrow> send_params \<Rightarrow> js_error + send_data"
  labels_list :: "oauth2_client \<Rightarrow> history \<Rightarrow> js_error + label_data list"
  labels_create :: "oauth2_client \<Rightarrow> history \<Rightarrow> label_body \<Rightarrow> js_error + label_data"
  labels_delete :: "oauth2_client \<Rightarrow> history \<Rightarrow> string option \<Rightarrow> js_error + unit"

text \<open>
  The world: the two environment variables and the default paths, the files by path,
  the paths that cannot be written (with the error the write raises), the clock and the
  random source (each read takes the next value), the requests issued so far, and the
  lines written by \<open>console.error\<close>.
\<close>

record world =
  env_credentials_path :: "string option"
  env_token_path :: "string option"
  default_credentials_path :: string
  default_token_path :: string
  fs :: "string \<Rightarrow> string option"
  write_error :: "string \<Rightarrow> js_error option"
  clock :: "nat \<Rightarrow> nat"
  ticks :: nat
  random36 :: "nat \<Rightarrow> nat list"
  draws :: nat
  calls :: history
  stderr :: "string list"

definition existsSync :: "world \<Rightarrow> string \<Rightarrow> bool" where
  "existsSync w path = (fs w path \<noteq> None)"

definition writeFileSync :: "string \<Rightarrow> string \<Rightarrow> world \<Rightarrow> js_error + world" where
  "writeFileSync path data w =
     (case write_error w path of
        Some e \<Rightarrow> Inl e
      | None \<Rightarrow> Inr (w\<lparr>fs := (fs w)(path \<mapsto> data)\<rparr>))"

text \<open>\<open>Date.now()\<close>.\<close>

definition date_now :: "world \<Rightarrow> nat \<times> world" where
  "date_now w = (clock w (ticks w), w\<lparr>ticks := Suc (ticks w)\<rparr>)"

text \<open>One draw of \<open>Math.random()\<close>: the digits of its base-36 fraction, as numbers.\<close>

definition random_suffix :: "world \<Rightarrow> nat list \<times> world" where
  "random_suffix w = (random36 w (draws w), w\<lparr>draws := Suc (draws w)\<rparr>)"

definition issue :: "net_call \<Rightarrow> world \<Rightarrow> world" where
  "issue c w = w\<lparr>calls := calls w @ [c]\<rparr>"

subsection \<open>The credential store (lines 25--83)\<close>

definition getCredentialsPath :: "world \<Rightarrow> string" where
  "getCredentialsPath w =
     (case or_else (env_credentials_path w) (Some (default_credentials_path w)) of
        Some p \<Rightarrow> p | None \<Rightarrow> default_credentials_path w)"

definition getTokenPath :: "world \<Rightarrow> string" where
  "getTokenPath w =
     (case or_else (env_token_path w) (Some (default_token_path w)) of
        Some p \<Rightarrow> p | None \<Rightarrow> default_token_path w)"

text \<open>
  The listener of the \<open>tokens\<close> event (lines 55--72): \<open>tokens\<close> is what the client
  obtained, \<open>token\<close> the bundle in memory. The bundle is merged field by field, each
  field only when the new value is truthy, and written to the token file; a failed write
  is logged and nothing else.
\<close>

definition on_tokens :: "platform \<Rightarrow> string \<Rightarrow> token \<Rightarrow> token \<Rightarrow> world \<Rightarrow> token \<times> world" where
  "on_tokens P tokenPath tokens token w =
     (let token1 = (if truthy (refresh_token tokens)
                    then token\<lparr>refresh_token := refresh_token tokens\<rparr> else token);
          token2 = (if truthy (access_token tokens)
                    then token1\<lparr>access_token := access_token tokens\<rparr> else token1);
          token3 = (if truthy_num (expiry_date tokens)
                    then token2\<lparr>expiry_date := expiry_date tokens\<rparr> else token2)
      in case writeFileSync tokenPath (stringify_token P token3) w of
           Inr w' \<Rightarrow> (token3, w')
         | Inl writeError \<Rightarrow>
             (token3, w\<lparr>stderr := stderr w @
                [''Failed to save refreshed token: '' @ err_message writeError]\<rparr>))"

text \<open>
  \<open>getGmailClient\<close>. When the stored token expires within a minute it calls
  \<open>refreshAccessToken\<close> on the client (line 77) and does not wait for the answer. The
  call is logged, and its answer is modelled as arriving on the spot: a failure is
  swallowed, a success fires the listener.
\<close>

definition proactive_refresh :: "platform \<Rightarrow> string \<Rightarrow> oauth2_client \<Rightarrow> token \<Rightarrow> world \<Rightarrow> world" where
  "proactive_refresh P tokenPath client token w =
     (if truthy_num (expiry_date token) then
        (let (now, w1) = date_now w in
         if the (expiry_date token) \<le> int now + 60000 then
           (case refreshAccessToken P client (calls w1) of
              Inl e \<Rightarrow> issue RefreshAccessToken w1
            | Inr tokens \<Rightarrow> snd (on_tokens P tokenPath tokens token (issue RefreshAccessToken w1)))
         else w1)
      else w)"

definition getGmailClient :: "platform \<Rightarrow> world \<Rightarrow> (js_error + oauth2_client) \<times> world" where
  "getGmailClient P w =
     (let credentialsPath = getCredentialsPath w; tokenPath = getTokenPath w in
      if \<not> existsSync w credentialsPath then
        (Inl (Error (''Credentials file not found: '' @ credentialsPath)), w)
      else if \<not> existsSync w tokenPath then
        (Inl (Error (''Token file not found: '' @ tokenPath @
           ''. Please run scripts/google-auth.js to authenticate.'')), w)
      else
        (case parse_credentials P (the (fs w credentialsPath)) of
           Inl e \<Rightarrow> (Inl e, w)
         | Inr credentials \<Rightarrow>
             (case parse_token P (the (fs w tokenPath)) of
                Inl e \<Rightarrow> (Inl e, w)
              | Inr token \<Rightarrow>
                  (case (case installed credentials of Some k \<Rightarrow> Some k | None \<Rightarrow> web credentials) of
                     None \<Rightarrow> (Inl (runtime_error P DestructureUndefined), w)
                   | Some keys \<Rightarrow>
                       (let client = \<lparr>oc_keys = keys, oc_credentials = token\<rparr>
                        in (Inr client, proactive_refresh P tokenPath client token w))))))"

subsection \<open>Arguments of a tool call\<close>

text \<open>
  The argument object of a call. Every handler destructures the fields it knows and
  ignores the rest, so one record with every field, each possibly undefined, stands for
  the object.
\<close>

record attachment =
  at_path :: string
  at_filename :: "string option"
  at_contentType :: "string option"

record tool_args =
  a_maxResults :: "int option"
  a_query :: "string option"
  a_labelIds :: "string list option"
  a_messageId :: "string option"
  a_messageIds :: "string list option"
  a_name :: "string option"
  a_backgroundColor :: "string option"
  a_textColor :: "string option"
  a_labelId :: "string option"
  a_addLabelIds :: "string list option"
  a_removeLabelIds :: "string list option"
  a_to :: "string option"
  a_subject :: "string option"
  a_body :: "string option"
  a_cc :: "string option"
  a_bcc :: "string option"
  a_replyTo :: "string option"
  a_threadId :: "string option"
  a_htmlBody :: "string option"
  a_attachments :: "attachment list option"

text \<open>The empty object \<open>{}\<close>.\<close>

definition no_args :: tool_args where
  "no_args = \<lparr>a_maxResults = None, a_query = None, a_labelIds = None, a_messageId = None,
     a_messageIds = None, a_name = None, a_backgroundColor = None, a_textColor = None,
     a_labelId = None, a_addLabelIds = None, a_removeLabelIds = None, a_to = None,
     a_subject = None, a_body = None, a_cc = None, a_bcc = None, a_replyTo = None,
     a_threadId = None, a_htmlBody = None, a_attachments = None\<rparr>"

subsection \<open>List, get, search, unread count, labels (lines 86--195)\<close>

text \<open>\<open>headers.find(h => h.name === name)?.value || ''\<close>.\<close>

definition getHeader :: "header list \<Rightarrow> string \<Rightarrow> string" where
  "getHeader headers name =
     (case find (\<lambda>h. h_name h = name) headers of None \<Rightarrow> [] | Some h \<Rightarrow> h_value h)"

text \<open>The loop of \<open>listEmails\<close>: one metadata fetch per listed message; the first failure ends the call.\<close>

fun fetch_details ::
  "platform \<Rightarrow> oauth2_client \<Rightarrow> msg_ref list \<Rightarrow> email_summary list \<Rightarrow> world
     \<Rightarrow> (js_error + email_summary list) \<times> world" where
  "fetch_details P gmail [] emails w = (Inr emails, w)"
| "fetch_details P gmail (msg # rest) emails w =
     (let params = \<lparr>gp_id = Some (mr_id msg), gp_format = ''metadata'',
                     gp_metadataHeaders = Some [''From'', ''Subject'', ''Date'']\<rparr>
      in case messages_get P gmail (calls w) params of
           Inl e \<Rightarrow> (Inl e, issue (MessagesGet params) w)
         | Inr detail \<Rightarrow>
             (let headers = pl_headers (md_payload detail)
              in fetch_details P gmail rest
                   (emails @ [\<lparr>es_id = mr_id msg, es_threadId = mr_threadId msg,
                               es_from = getHeader headers ''From'',
                               es_subject = getHeader headers ''Subject'',
                               es_date = getHeader headers ''Date'',
                               es_snippet = md_snippet detail\<rparr>])
                   (issue (MessagesGet params) w)))"

definition listEmails :: "platform \<Rightarrow> tool_args \<Rightarrow> world \<Rightarrow> (js_error + list_result) \<times> world" where
  "listEmails P args w =
     (let maxResults = (case a_maxResults args of None \<Rightarrow> 10 | Some m \<Rightarrow> m);
          query = (case a_query args of None \<Rightarrow> [] | Some q \<Rightarrow> q);
          labelIds = (case a_labelIds args of None \<Rightarrow> [''INBOX''] | Some l \<Rightarrow> l)
      in case getGmailClient P w of
           (Inl e, w1) \<Rightarrow> (Inl e, w1)
         | (Inr gmail, w1) \<Rightarrow>
             (let params = \<lparr>lp_maxResults = maxResults, lp_q = query, lp_labelIds = Some labelIds\<rparr>
              in case messages_list P gmail (calls w1) params of
                   Inl e \<Rightarrow> (Inl e, issue (MessagesList params) w1)
                 | Inr data \<Rightarrow>
                     (let messages = (case ld_messages data of None \<Rightarrow> [] | Some ms \<Rightarrow> ms)
                      in case fetch_details P gmail messages [] (issue (MessagesList params) w1) of
                           (Inl e, w2) \<Rightarrow> (Inl e, w2)
                         | (Inr emails, w2) \<Rightarrow>
                             (Inr \<lparr>lr_emails = emails,
                                   lr_totalResults = ld_resultSizeEstimate data\<rparr>, w2))))"

text \<open>The body of a fetched message, before it is cut (lines 137--148).\<close>

definition extract_body :: "platform \<Rightarrow> payload \<Rightarrow> string" where
  "extract_body P payload =
     (if truthy (pl_body_data payload) then decode_base64_utf8 P (the (pl_body_data payload))
      else case pl_parts payload of
             None \<Rightarrow> []
           | Some parts \<Rightarrow>
               (case find (\<lambda>p. pt_mimeType p = ''text/plain'') parts of
                  None \<Rightarrow> []
                | Some textPart \<Rightarrow>
                    if truthy (pt_body_data textPart)
                    then decode_base64_utf8 P (the (pt_body_data textPart)) else []))"

definition getEmail :: "platform \<Rightarrow> tool_args \<Rightarrow> world \<Rightarrow> (js_error + email_detail) \<times> world" where
  "getEmail P args w =
     (case getGmailClient P w of
        (Inl e, w1) \<Rightarrow> (Inl e, w1)
      | (Inr gmail, w1) \<Rightarrow>
          (let params = \<lparr>gp_id = a_messageId args, gp_format = ''full'', gp_metadataHeaders = None\<rparr>
           in case messages_get P gmail (calls w1) params of
                Inl e \<Rightarrow> (Inl e, issue (MessagesGet params) w1)
              | Inr data \<Rightarrow>
                  (let headers = pl_headers (md_payload data);
                       body = extract_body P (md_payload data)
                   in (Inr \<lparr>ed_id = md_id data, ed_threadId = md_threadId data,
                             ed_from = getHeader headers ''From'',
                             ed_to = getHeader headers ''To'',
                             ed_subject = getHeader headers ''Subject'',
                             ed_date = getHeader headers ''Date'',
                             ed_body = take 5000 body,
                             ed_labels = md_labelIds data\<rparr>,
                       issue (MessagesGet params) w1))))"

definition searchEmails :: "platform \<Rightarrow> tool_args \<Rightarrow> world \<Rightarrow> (js_error + list_result) \<times> world" where
  "searchEmails P args w =
     (let query = a_query args;
          maxResults = (case a_maxResults args of None \<Rightarrow> 20 | Some m \<Rightarrow> m)
      in listEmails P (no_args\<lparr>a_query := query, a_maxResults := Some maxResults,
                                a_labelIds := Some []\<rparr>) w)"

definition getUnreadCount :: "platform \<Rightarrow> world \<Rightarrow> (js_error + int) \<times> world" where
  "getUnreadCount P w =
     (case getGmailClient P w of
        (Inl e, w1) \<Rightarrow> (Inl e, w1)
      | (Inr gmail, w1) \<Rightarrow>
          (let params = \<lparr>lp_maxResults = 1, lp_q = ''is:unread'', lp_labelIds = None\<rparr>
           in case messages_list P gmail (calls w1) params of
                Inl e \<Rightarrow> (Inl e, issue (MessagesList params) w1)
              | Inr data \<Rightarrow>
                  (Inr (case ld_resultSizeEstimate data of None \<Rightarrow> 0 | Some n \<Rightarrow> n),
                   issue (MessagesList params) w1)))"

definition listLabels :: "platform \<Rightarrow> world \<Rightarrow> (js_error + label_data list) \<times> world" where
  "listLabels P w =
     (case getGmailClient P w of
        (Inl e, w1) \<Rightarrow> (Inl e, w1)
      | (Inr gmail, w1) \<Rightarrow>
          (case labels_list P gmail (calls w1) of
             Inl e \<Rightarrow> (Inl e, issue LabelsList w1)
           | Inr labels \<Rightarrow>
               (Inr (map (\<lambda>l. \<lparr>lbl_id = lbl_id l, lbl_name = lbl_name l, lbl_type = lbl_type l\<rparr>) labels),
                issue LabelsList w1)))"

subsection \<open>Per-item operations (lines 197--238 and 281--306)\<close>

text \<open>
  The loop the three per-item handlers share: one request per identifier, in order; the
  outcome of each is pushed to \<open>results\<close>, a failure as an entry with the error's
  message, and the loop goes on.
\<close>

fun per_item ::
  "(string \<Rightarrow> world \<Rightarrow> (js_error + unit) \<times> world) \<Rightarrow> string \<Rightarrow> string list \<Rightarrow> item_result list
     \<Rightarrow> world \<Rightarrow> item_result list \<times> world" where
  "per_item request status [] results w = (results, w)"
| "per_item request status (i # ids) results w =
     (case request i w of
        (Inr u, w1) \<Rightarrow>
          per_item request status ids
            (results @ [\<lparr>ir_id = i, ir_status = status, ir_error = None\<rparr>]) w1
      | (Inl error, w1) \<Rightarrow>
          per_item request status ids
            (results @ [\<lparr>ir_id = i, ir_status = ''error'', ir_error = Some (err_message error)\<rparr>]) w1)"

definition trash_request :: "platform \<Rightarrow> oauth2_client \<Rightarrow> string \<Rightarrow> world \<Rightarrow> (js_error + unit) \<times> world" where
  "trash_request P gmail i w = (messages_trash P gmail (calls w) i, issue (MessagesTrash i) w)"

definition modify_request ::
  "platform \<Rightarrow> oauth2_client \<Rightarrow> string list option \<Rightarrow> string list option \<Rightarrow> string \<Rightarrow> world
     \<Rightarrow> (js_error + unit) \<times> world" where
  "modify_request P gmail add remove i w =
     (let params = \<lparr>mp_id = i, mp_addLabelIds = add, mp_removeLabelIds = remove\<rparr>
      in (messages_modify P gmail (calls w) params, issue (MessagesModify params) w))"

definition count_status :: "string \<Rightarrow> item_result list \<Rightarrow> nat" where
  "count_status s results = length (filter (\<lambda>r. ir_status r = s) results)"

definition trashEmails :: "platform \<Rightarrow> tool_args \<Rightarrow> world \<Rightarrow> (js_error + items_result) \<times> world" where
  "trashEmails P args w =
     (case getGmailClient P w of
        (Inl e, w1) \<Rightarrow> (Inl e, w1)
      | (Inr gmail, w1) \<Rightarrow>
          (case a_messageIds args of
             None \<Rightarrow> (Inl (runtime_error P NotIterable), w1)
           | Some messageIds \<Rightarrow>
               (let (results, w2) = per_item (trash_request P gmail) ''trashed'' messageIds [] w1
                in (Inr \<lparr>its_count = count_status ''trashed'' results, its_results = results\<rparr>, w2))))"

definition markAsRead :: "platform \<Rightarrow> tool_args \<Rightarrow> world \<Rightarrow> (js_error + items_result) \<times> world" where
  "markAsRead P args w =
     (case getGmailClient P w of
        (Inl e, w1) \<Rightarrow> (Inl e, w1)
      | (Inr gmail, w1) \<Rightarrow>
          (case a_messageIds args of
             None \<Rightarrow> (Inl (runtime_error P NotIterable), w1)
           | Some messageIds \<Rightarrow>
               (let (results, w2) =
                      per_item (modify_request P gmail None (Some [''UNREAD''])) ''marked_read''
                        messageIds [] w1
                in (Inr \<lparr>its_count = count_status ''marked_read'' results, its_results = results\<rparr>, w2))))"

definition modifyEmailLabels :: "platform \<Rightarrow> tool_args \<Rightarrow> world \<Rightarrow> (js_error + items_result) \<times> world" where
  "modifyEmailLabels P args w =
     (let addLabelIds = (case a_addLabelIds args of None \<Rightarrow> [] | Some l \<Rightarrow> l);
          removeLabelIds = (case a_removeLabelIds args of None \<Rightarrow> [] | Some l \<Rightarrow> l)
      in case getGmailClient P w of
           (Inl e, w1) \<Rightarrow> (Inl e, w1)
         | (Inr gmail, w1) \<Rightarrow>
             (case a_messageIds args of
                None \<Rightarrow> (Inl (runtime_error P NotIterable), w1)
              | Some messageIds \<Rightarrow>
                  (let (results, w2) =
                         per_item (modify_request P gmail (Some addLabelIds) (Some removeLabelIds))
                           ''modified'' messageIds [] w1
                   in (Inr \<lparr>its_count = count_status ''modified'' results, its_results = results\<rparr>, w2))))"

subsection \<open>Labels and the batch operation (lines 240--279 and 308--328)\<close>

definition createLabel :: "platform \<Rightarrow> tool_args \<Rightarrow> world \<Rightarrow> (js_error + label_data) \<times> world" where
  "createLabel P args w =
     (case getGmailClient P w of
        (Inl e, w1) \<Rightarrow> (Inl e, w1)
      | (Inr gmail, w1) \<Rightarrow>
          (let color =
                 (if truthy (a_backgroundColor args) \<or> truthy (a_textColor args)
                  then Some \<lparr>lc_backgroundColor =
                               (if truthy (a_backgroundColor args) then a_backgroundColor args else None),
                             lc_textColor =
                               (if truthy (a_textColor args) then a_textColor args else None)\<rparr>
                  else None);
               labelBody = \<lparr>lb_name = a_name args, lb_labelListVisibility = ''labelShow'',
                            lb_messageListVisibility = ''show'', lb_color = color\<rparr>
           in case labels_create P gmail (calls w1) labelBody of
                Inl e \<Rightarrow> (Inl e, issue (LabelsCreate labelBody) w1)
              | Inr data \<Rightarrow>
                  (Inr \<lparr>lbl_id = lbl_id data, lbl_name = lbl_name data, lbl_type = lbl_type data\<rparr>,
                   issue (LabelsCreate labelBody) w1)))"

definition deleteLabel :: "platform \<Rightarrow> tool_args \<Rightarrow> world \<Rightarrow> (js_error + string option) \<times> world" where
  "deleteLabel P args w =
     (case getGmailClient P w of
        (Inl e, w1) \<Rightarrow> (Inl e, w1)
      | (Inr gmail, w1) \<Rightarrow>
          (case labels_delete P gmail (calls w1) (a_labelId args) of
             Inl e \<Rightarrow> (Inl e, issue (LabelsDelete (a_labelId args)) w1)
           | Inr u \<Rightarrow> (Inr (a_labelId args), issue (LabelsDelete (a_labelId args)) w1)))"

text \<open>
  \<open>batchModifyLabels\<close>: one \<open>batchModify\<close> request for the whole list. The result is
  built after the request returned; \<open>messageIds.length\<close> of an absent list is a fault
  of the runtime.
\<close>

definition batchModifyLabels :: "platform \<Rightarrow> tool_args \<Rightarrow> world \<Rightarrow> (js_error + batch_result) \<times> world" where
  "batchModifyLabels P args w =
     (let addLabelIds = (case a_addLabelIds args of None \<Rightarrow> [] | Some l \<Rightarrow> l);
          removeLabelIds = (case a_removeLabelIds args of None \<Rightarrow> [] | Some l \<Rightarrow> l)
      in case getGmailClient P w of
           (Inl e, w1) \<Rightarrow> (Inl e, w1)
         | (Inr gmail, w1) \<Rightarrow>
             (let params = \<lparr>bp_ids = a_messageIds args, bp_addLabelIds = addLabelIds,
                             bp_removeLabelIds = removeLabelIds\<rparr>
              in case messages_batchModify P gmail (calls w1) params of
                   Inl e \<Rightarrow> (Inl e, issue (MessagesBatchModify params) w1)
                 | Inr u \<Rightarrow>
                     (case a_messageIds args of
                        None \<Rightarrow> (Inl (runtime_error P LengthOfUndefined),
                                 issue (MessagesBatchModify params) w1)
                      | Some messageIds \<Rightarrow>
                          (Inr \<lparr>br_success = True, br_count = length messageIds,
                                br_addedLabels = addLabelIds, br_removedLabels = removeLabelIds\<rparr>,
                           issue (MessagesBatchModify params) w1))))"

subsection \<open>Text and encodings used by send\<close>

definition CR :: char where "CR = CHR 0x0D"
definition LF :: char where "LF = CHR 0x0A"
definition DQ :: char where "DQ = CHR 0x22"

definition CRLF :: string where
  "CRLF = [CR, LF]"

text \<open>\<open>Array.prototype.join\<close>.\<close>

fun join :: "string \<Rightarrow> string list \<Rightarrow> string" where
  "join sep [] = []"
| "join sep [x] = x"
| "join sep (x # y # ys) = x @ sep @ join sep (y # ys)"

text \<open>A number inside a template literal: its decimal digits.\<close>

definition digit_char :: "nat \<Rightarrow> char" where
  "digit_char d = char_of (48 + d)"

fun show_nat :: "nat \<Rightarrow> string" where
  "show_nat n = (if n < 10 then [digit_char n] else show_nat (n div 10) @ [digit_char (n mod 10)])"

declare show_nat.simps [simp del]

text \<open>\<open>path.split('/').pop()\<close>: what follows the last slash.\<close>

definition basename :: "string \<Rightarrow> string" where
  "basename path = rev (takeWhile (\<lambda>c. c \<noteq> CHR ''/'') (rev path))"

text \<open>
  \<open>htmlBody.replace(/<[^>]*>/g, '')\<close>: every \<open><\<close> that has a \<open>>\<close> somewhere after
  it is removed together with everything up to the first such \<open>>\<close>.
\<close>

fun strip_tags :: "string \<Rightarrow> string" and skip_tag :: "string \<Rightarrow> string" where
  "strip_tags [] = []"
| "strip_tags (c # cs) =
     (if c = CHR ''<'' \<and> CHR ''>'' \<in> set cs then skip_tag cs else c # strip_tags cs)"
| "skip_tag [] = []"
| "skip_tag (c # cs) = (if c = CHR ''>'' then strip_tags cs else skip_tag cs)"

text \<open>
  \<open>Buffer.prototype.toString('base64')\<close>: the base64 of RFC 4648, with padding.
  \<open>b64_char\<close> is the alphabet \<open>A-Z a-z 0-9 + /\<close>.
\<close>

definition b64_char :: "nat \<Rightarrow> char" where
  "b64_char n =
     (if n < 26 then char_of (65 + n)
      else if n < 52 then char_of (71 + n)
      else if n < 62 then char_of (n - 4)
      else if n = 62 then CHR ''+'' else CHR ''/'')"

fun base64 :: "string \<Rightarrow> string" where
  "base64 [] = []"
| "base64 [a] =
     (let x = (of_char a :: nat)
      in [b64_char (x div 4), b64_char ((x mod 4) * 16), CHR ''='', CHR ''=''])"
| "base64 [a, b] =
     (let x = (of_char a :: nat); y = (of_char b :: nat)
      in [b64_char (x div 4), b64_char ((x mod 4) * 16 + y div 16),
          b64_char ((y mod 16) * 4), CHR ''=''])"
| "base64 (a # b # c # rest) =
     (let x = (of_char a :: nat); y = (of_char b :: nat); z = (of_char c :: nat)
      in [b64_char (x div 4), b64_char ((x mod 4) * 16 + y div 16),
          b64_char ((y mod 16) * 4 + z div 64), b64_char (z mod 64)] @ base64 rest)"

text \<open>\<open>.replace(/\+/g, '-')\<close> and its like: every occurrence of one character.\<close>

definition replace_char :: "char \<Rightarrow> char \<Rightarrow> string \<Rightarrow> string" where
  "replace_char a b s = map (\<lambda>c. if c = a then b else c) s"

text \<open>\<open>.replace(/=+$/, '')\<close>.\<close>

definition strip_padding :: "string \<Rightarrow> string" where
  "strip_padding s = rev (dropWhile (\<lambda>c. c = CHR ''='') (rev s))"

text \<open>Lines 434--438.\<close>

definition encode_message :: "string \<Rightarrow> string" where
  "encode_message email =
     strip_padding (replace_char (CHR ''/'') (CHR ''_'') (replace_char (CHR ''+'') (CHR ''-'') (base64 email)))"

text \<open>
  \<open>Math.random().toString(36).substr(2, 9)\<close>: at most nine digits of base 36,
  written with the digit alphabet \<open>0-9 a-z\<close> of \<open>toString(36)\<close>.
\<close>

definition digit36 :: "nat \<Rightarrow> char" where
  "digit36 d =
     (let k = d mod 36 in if k < 10 then char_of (48 + k) else char_of (87 + k))"

definition random_part :: "world \<Rightarrow> string \<times> world" where
  "random_part w = (let (r, w1) = random_suffix w in (map digit36 (take 9 r), w1))"

text \<open>A boundary: \<open>----=_<tag>_<Date.now()>_<random>\<close>.\<close>

definition make_boundary :: "string \<Rightarrow> world \<Rightarrow> string \<times> world" where
  "make_boundary tag w =
     (let (now, w1) = date_now w; (r, w2) = random_part w1
      in (''----=_'' @ tag @ ''_'' @ show_nat now @ ''_'' @ r, w2))"

subsection \<open>Send (lines 330--456)\<close>

text \<open>The header lines (lines 339--347).\<close>

definition build_headers :: "tool_args \<Rightarrow> string list" where
  "build_headers args =
     [''To: '' @ the (a_to args), ''Subject: '' @ the (a_subject args)]
     @ (if truthy (a_cc args) then [''Cc: '' @ the (a_cc args)] else [])
     @ (if truthy (a_bcc args) then [''Bcc: '' @ the (a_bcc args)] else [])
     @ (if truthy (a_replyTo args) then [''Reply-To: '' @ the (a_replyTo args)] else [])
     @ (if truthy (a_threadId args) then [''In-Reply-To: '' @ the (a_threadId args)] else [])"

text \<open>
  The plain-text alternative (lines 370 and 417). The source reads
  \<open>body || htmlBody.replace(/<[^>]*>/g, '') + '\r\n\r\n'\<close>, and \<open>+\<close> binds tighter than
  \<open>||\<close>: a body that is given is appended as it is, with no line break after it.
\<close>

definition plain_version :: "string option \<Rightarrow> string \<Rightarrow> string" where
  "plain_version body htmlBody =
     (if truthy body then the body else strip_tags htmlBody @ CRLF @ CRLF)"

text \<open>The two alternatives between the delimiters of \<open>boundary\<close> (lines 367--376 and 414--423).\<close>

definition alternatives :: "string \<Rightarrow> string option \<Rightarrow> string \<Rightarrow> string" where
  "alternatives boundary body htmlBody =
     ''--'' @ boundary @ CRLF
     @ ''Content-Type: text/plain; charset=UTF-8'' @ CRLF
     @ ''Content-Transfer-Encoding: 7bit'' @ CRLF @ CRLF
     @ plain_version body htmlBody
     @ ''--'' @ boundary @ CRLF
     @ ''Content-Type: text/html; charset=UTF-8'' @ CRLF
     @ ''Content-Transfer-Encoding: 7bit'' @ CRLF @ CRLF
     @ htmlBody @ CRLF @ CRLF"

text \<open>One attachment (lines 394--403), after its file was found.\<close>

definition attachment_text :: "world \<Rightarrow> string \<Rightarrow> attachment \<Rightarrow> string" where
  "attachment_text w mixedBoundary a =
     (let fileContent = the (fs w (at_path a));
          base64Content = base64 fileContent;
          mimeType = (if truthy (at_contentType a) then the (at_contentType a)
                      else ''application/octet-stream'');
          attachmentFilename = (if truthy (at_filename a) then the (at_filename a)
                                else basename (at_path a))
      in ''--'' @ mixedBoundary @ CRLF
         @ ''Content-Type: '' @ mimeType @ CRLF
         @ ''Content-Disposition: attachment; filename='' @ [DQ] @ attachmentFilename @ [DQ] @ CRLF
         @ ''Content-Transfer-Encoding: base64'' @ CRLF @ CRLF
         @ base64Content @ CRLF @ CRLF)"

text \<open>The loop over the attachments (lines 387--404): a missing file ends the call.\<close>

fun add_attachments :: "world \<Rightarrow> string \<Rightarrow> attachment list \<Rightarrow> string \<Rightarrow> js_error + string" where
  "add_attachments w mixedBoundary [] email = Inr email"
| "add_attachments w mixedBoundary (a # rest) email =
     (if \<not> existsSync w (at_path a)
      then Inl (Error (''Attachment file not found: '' @ at_path a))
      else add_attachments w mixedBoundary rest (email @ attachment_text w mixedBoundary a))"

text \<open>The message text (lines 339--431), for arguments that passed the check of line 334.\<close>

definition build_email :: "tool_args \<Rightarrow> world \<Rightarrow> (js_error + string) \<times> world" where
  "build_email args w =
     (let email = join CRLF (build_headers args) @ CRLF;
          hasAttachments = (case a_attachments args of None \<Rightarrow> False | Some l \<Rightarrow> length l > 0)
      in if hasAttachments then
           (let (mixedBoundary, w1) = make_boundary ''Mixed'' w;
                email1 = email @ ''MIME-Version: 1.0'' @ CRLF
                  @ ''Content-Type: multipart/mixed; boundary='' @ [DQ] @ mixedBoundary @ [DQ]
                  @ CRLF @ CRLF
            in if truthy (a_htmlBody args) then
                 (let (altBoundary, w2) = make_boundary ''Alternative'' w1;
                      email2 = email1 @ ''--'' @ mixedBoundary @ CRLF
                        @ ''Content-Type: multipart/alternative; boundary='' @ [DQ] @ altBoundary @ [DQ]
                        @ CRLF @ CRLF
                        @ alternatives altBoundary (a_body args) (the (a_htmlBody args))
                        @ ''--'' @ altBoundary @ ''--'' @ CRLF @ CRLF
                  in case add_attachments w2 mixedBoundary (the (a_attachments args)) email2 of
                       Inl e \<Rightarrow> (Inl e, w2)
                     | Inr email3 \<Rightarrow> (Inr (email3 @ ''--'' @ mixedBoundary @ ''--'' @ CRLF), w2))
               else
                 (let email2 = email1 @ ''--'' @ mixedBoundary @ CRLF
                        @ ''Content-Type: text/plain; charset=UTF-8'' @ CRLF
                        @ ''Content-Transfer-Encoding: 7bit'' @ CRLF @ CRLF
                        @ the (a_body args) @ CRLF @ CRLF
                  in case add_attachments w1 mixedBoundary (the (a_attachments args)) email2 of
                       Inl e \<Rightarrow> (Inl e, w1)
                     | Inr email3 \<Rightarrow> (Inr (email3 @ ''--'' @ mixedBoundary @ ''--'' @ CRLF), w1)))
         else if truthy (a_htmlBody args) then
           (let (boundary, w1) = make_boundary ''Part'' w
            in (Inr (email @ ''MIME-Version: 1.0'' @ CRLF
                  @ ''Content-Type: multipart/alternative; boundary='' @ [DQ] @ boundary @ [DQ]
                  @ CRLF @ CRLF
                  @ alternatives boundary (a_body args) (the (a_htmlBody args))
                  @ ''--'' @ boundary @ ''--'' @ CRLF), w1))
         else
           (Inr (email @ ''Content-Type: text/plain; charset=UTF-8'' @ CRLF
              @ ''Content-Transfer-Encoding: 7bit'' @ CRLF @ CRLF
              @ the (a_body args)), w))"

definition sendEmail :: "platform \<Rightarrow> tool_args \<Rightarrow> world \<Rightarrow> (js_error + send_result) \<times> world" where
  "sendEmail P args w =
     (case getGmailClient P w of
        (Inl e, w1) \<Rightarrow> (Inl e, w1)
      | (Inr gmail, w1) \<Rightarrow>
          if \<not> truthy (a_to args) \<or> \<not> truthy (a_subject args)
             \<or> (\<not> truthy (a_body args) \<and> \<not> truthy (a_htmlBody args))
          then (Inl (Error ''to, subject, and body (or htmlBody) are required''), w1)
          else
            (case build_email args w1 of
               (Inl e, w2) \<Rightarrow> (Inl e, w2)
             | (Inr email, w2) \<Rightarrow>
                 (let encodedMessage = encode_message email;
                      params = \<lparr>sp_raw = encodedMessage,
                                sp_threadId = (if truthy (a_threadId args) then a_threadId args else None)\<rparr>
                  in case messages_send P gmail (calls w2) params of
                       Inl e \<Rightarrow> (Inl e, issue (MessagesSend params) w2)
                     | Inr data \<Rightarrow>
                         (Inr \<lparr>sr_success = True, sr_messageId = sd_id data,
                               sr_threadId = sd_threadId data,
                               sr_to = the (a_to args), sr_subject = the (a_subject args),
                               sr_attachmentsCount =
                                 (case a_attachments args of None \<Rightarrow> 0 | Some l \<Rightarrow> length l)\<rparr>,
                          issue (MessagesSend params) w2))))"

subsection \<open>The dispatcher (lines 679--744)\<close>

record call_request =
  cr_name :: string
  cr_arguments :: "tool_args option"

text \<open>The response \<open>{ content: [{ type: 'text', text }], isError }\<close>.\<close>

record call_response =
  resp_text :: string
  resp_isError :: bool

definition as_result :: "('a \<Rightarrow> tool_result) \<Rightarrow> (js_error + 'a) \<times> world \<Rightarrow> (js_error + tool_result) \<times> world" where
  "as_result f rw = (case rw of (Inl e, w) \<Rightarrow> (Inl e, w) | (Inr r, w) \<Rightarrow> (Inr (f r), w))"


definition run_tool :: "platform \<Rightarrow> string \<Rightarrow> tool_args \<Rightarrow> world \<Rightarrow> (js_error + tool_result) \<times> world" where
  "run_tool P name args w =
     (if name = ''list_emails'' then as_result ListResult (listEmails P args w)
      else if name = ''get_email'' then as_result GetResult (getEmail P args w)
      else if name = ''search_emails'' then as_result ListResult (searchEmails P args w)
      else if name = ''get_unread_count'' then as_result UnreadCount (getUnreadCount P w)
      else if name = ''list_labels'' then as_result Labels (listLabels P w)
      else if name = ''trash_emails'' then as_result Trashed (trashEmails P args w)
      else if name = ''mark_as_read'' then as_result Marked (markAsRead P args w)
      else if name = ''create_label'' then as_result CreatedLabel (createLabel P args w)
      else if name = ''delete_label'' then as_result DeletedLabel (deleteLabel P args w)
      else if name = ''modify_email_labels'' then as_result Modified (modifyEmailLabels P args w)
      else if name = ''batch_modify_labels'' then as_result BatchModified (batchModifyLabels P args w)
      else if name = ''send_email'' then as_result Sent (sendEmail P args w)
      else (Inl (Error (''Unknown tool: '' @ name)), w))"

text \<open>The message of the error payload (lines 730--737).\<close>

definition error_message :: "js_error \<Rightarrow> string" where
  "error_message error =
     (if err_code error = Some 401 \<or> js_includes (err_message error) ''invalid_grant''
         \<or> js_includes (err_message error) ''invalid_token''
      then ''Gmail authentication expired. Please run '' @ [CHR 0x27] @ ''node scripts/google-auth.js''
           @ [CHR 0x27] @ '' to re-authenticate. Original error: '' @ err_message error
      else if js_includes (err_message error) ''Credentials file not found''
              \<or> js_includes (err_message error) ''Token file not found''
      then err_message error
      else err_message error)"

definition handle_call :: "platform \<Rightarrow> call_request \<Rightarrow> world \<Rightarrow> call_response \<times> world" where
  "handle_call P request w =
     (let name = cr_name request;
          args = (case cr_arguments request of None \<Rightarrow> no_args | Some a \<Rightarrow> a)
      in case run_tool P name args w of
           (Inr result, w1) \<Rightarrow> (\<lparr>resp_text = stringify_result P result, resp_isError = False\<rparr>, w1)
         | (Inl error, w1) \<Rightarrow>
             (\<lparr>resp_text = ''Error: '' @ error_message error, resp_isError = True\<rparr>, w1))"

section \<open>Definitions the properties are stated with\<close>

text \<open>The error of line 335.\<close>

definition precondition_error :: js_error where
  "precondition_error = Error ''to, subject, and body (or htmlBody) are required''"

text \<open>
  The stored token is fresh when it has no expiry or expires later than a minute from
  now (line 75): acquiring the client then starts no refresh.
\<close>

definition token_is_fresh :: "platform \<Rightarrow> world \<Rightarrow> bool" where
  "token_is_fresh P w =
     (case fs w (getTokenPath w) of
        None \<Rightarrow> False
      | Some text \<Rightarrow>
          (case parse_token P text of
             Inl e \<Rightarrow> False
           | Inr token \<Rightarrow>
               \<not> truthy_num (expiry_date token)
               \<or> int (clock w (ticks w)) + 60000 < the (expiry_date token)))"

text \<open>The request object of \<open>batchModifyLabels\<close> (lines 315--319).\<close>

definition batch_request :: "tool_args \<Rightarrow> batch_params" where
  "batch_request args = \<lparr>bp_ids = a_messageIds args,
      bp_addLabelIds = (case a_addLabelIds args of None \<Rightarrow> [] | Some l \<Rightarrow> l),
      bp_removeLabelIds = (case a_removeLabelIds args of None \<Rightarrow> [] | Some l \<Rightarrow> l)\<rparr>"

text \<open>
  The three per-item handlers under one name, with the request each sends for an
  identifier, the provider's answer to it, the status of a success, and the entry the
  loop pushes for an answer.
\<close>

datatype item_op = TrashOp | MarkReadOp | ModifyOp

fun item_handler :: "item_op \<Rightarrow> platform \<Rightarrow> tool_args \<Rightarrow> world \<Rightarrow> (js_error + items_result) \<times> world" where
  "item_handler TrashOp = trashEmails"
| "item_handler MarkReadOp = markAsRead"
| "item_handler ModifyOp = modifyEmailLabels"

fun item_status :: "item_op \<Rightarrow> string" where
  "item_status TrashOp = ''trashed''"
| "item_status MarkReadOp = ''marked_read''"
| "item_status ModifyOp = ''modified''"

fun item_params :: "item_op \<Rightarrow> tool_args \<Rightarrow> string \<Rightarrow> modify_params" where
  "item_params MarkReadOp args i =
     \<lparr>mp_id = i, mp_addLabelIds = None, mp_removeLabelIds = Some [''UNREAD'']\<rparr>"
| "item_params op args i =
     \<lparr>mp_id = i,
      mp_addLabelIds = Some (case a_addLabelIds args of None \<Rightarrow> [] | Some l \<Rightarrow> l),
      mp_removeLabelIds = Some (case a_removeLabelIds args of None \<Rightarrow> [] | Some l \<Rightarrow> l)\<rparr>"

fun item_call :: "item_op \<Rightarrow> tool_args \<Rightarrow> string \<Rightarrow> net_call" where
  "item_call TrashOp args i = MessagesTrash i"
| "item_call op args i = MessagesModify (item_params op args i)"

fun item_answer ::
  "item_op \<Rightarrow> platform \<Rightarrow> oauth2_client \<Rightarrow> tool_args \<Rightarrow> history \<Rightarrow> string \<Rightarrow> js_error + unit" where
  "item_answer TrashOp P gmail args h i = messages_trash P gmail h i"
| "item_answer op P gmail args h i = messages_modify P gmail h (item_params op args i)"

definition item_entry :: "string \<Rightarrow> string \<Rightarrow> js_error + unit \<Rightarrow> item_result" where
  "item_entry status i answer =
     (case answer of
        Inr u \<Rightarrow> \<lparr>ir_id = i, ir_status = status, ir_error = None\<rparr>
      | Inl error \<Rightarrow> \<lparr>ir_id = i, ir_status = ''error'', ir_error = Some (err_message error)\<rparr>)"

text \<open>
  Search as the specification words it: list, with the same cap, the label filter
  cleared and the query as it came.
\<close>

definition search_as_list :: "platform \<Rightarrow> string \<Rightarrow> int \<Rightarrow> world \<Rightarrow> (js_error + list_result) \<times> world" where
  "search_as_list P query cap w =
     listEmails P (no_args\<lparr>a_maxResults := Some cap, a_query := Some query, a_labelIds := Some []\<rparr>) w"



text \<open>
  The reader's side of the envelope: base64url back to bytes (RFC 4648, section 5).
  \<open>sextets\<close> are the six-bit groups of a byte string and \<open>url_char\<close> the character
  base64url writes for one; \<open>url_of\<close> is the two replacements of lines 436--437.
\<close>

definition b64_val :: "char \<Rightarrow> nat" where
  "b64_val c =
     (let k = (of_char c :: nat)
      in if 65 \<le> k \<and> k \<le> 90 then k - 65
         else if 97 \<le> k \<and> k \<le> 122 then k - 71
         else if 48 \<le> k \<and> k \<le> 57 then k + 4
         else if c = CHR ''+'' then 62 else 63)"

definition url_val :: "char \<Rightarrow> nat" where
  "url_val c = b64_val (if c = CHR ''-'' then CHR ''+'' else if c = CHR ''_'' then CHR ''/'' else c)"

fun decode_sextets :: "nat list \<Rightarrow> string" where
  "decode_sextets (a # b # c # d # rest) =
     [char_of (a * 4 + b div 16), char_of ((b mod 16) * 16 + c div 4), char_of ((c mod 4) * 64 + d)]
     @ decode_sextets rest"
| "decode_sextets [a, b, c] = [char_of (a * 4 + b div 16), char_of ((b mod 16) * 16 + c div 4)]"
| "decode_sextets [a, b] = [char_of (a * 4 + b div 16)]"
| "decode_sextets other = []"

definition base64url_decode :: "string \<Rightarrow> string" where
  "base64url_decode s = decode_sextets (map url_val s)"

fun sextets :: "string \<Rightarrow> nat list" where
  "sextets [] = []"
| "sextets [a] = (let x = (of_char a :: nat) in [x div 4, (x mod 4) * 16])"
| "sextets [a, b] =
     (let x = (of_char a :: nat); y = (of_char b :: nat)
      in [x div 4, (x mod 4) * 16 + y div 16, (y mod 16) * 4])"
| "sextets (a # b # c # rest) =
     (let x = (of_char a :: nat); y = (of_char b :: nat); z = (of_char c :: nat)
      in [x div 4, (x mod 4) * 16 + y div 16, (y mod 16) * 4 + z div 64, z mod 64] @ sextets rest)"

definition url_char :: "nat \<Rightarrow> char" where
  "url_char n = (let c = b64_char n in if c = CHR ''+'' then CHR ''-'' else if c = CHR ''/'' then CHR ''_'' else c)"

definition url_of :: "string \<Rightarrow> string" where
  "url_of s = replace_char (CHR ''/'') (CHR ''_'') (replace_char (CHR ''+'') (CHR ''-'') s)"

text \<open>
  The reader's side of the message: a reader of multipart entities after RFC 2045 and
  RFC 2046, as far as this code writes them. Lines end with CR LF; the header block ends
  at the first empty line; a field is found by its name as written; the boundary is the
  quoted parameter of the content type; a delimiter line is two hyphens and the boundary,
  a closing delimiter has two more hyphens, each possibly followed by blanks; what
  precedes the first delimiter and what follows the closing one is skipped.
\<close>

fun split_crlf :: "string \<Rightarrow> string list" where
  "split_crlf [] = [[]]"
| "split_crlf [c] = [[c]]"
| "split_crlf (c # d # cs) =
     (if c = CR \<and> d = LF then [] # split_crlf cs
      else case split_crlf (d # cs) of
             l # ls \<Rightarrow> (c # l) # ls
           | [] \<Rightarrow> [[c]])"

definition header_block :: "string list \<Rightarrow> string list" where
  "header_block ls = takeWhile (\<lambda>l. l \<noteq> []) ls"

definition body_block :: "string list \<Rightarrow> string list" where
  "body_block ls = drop 1 (dropWhile (\<lambda>l. l \<noteq> []) ls)"

definition field_value :: "string \<Rightarrow> string list \<Rightarrow> string option" where
  "field_value name hs =
     (case find (\<lambda>h. starts_with h (name @ '': '')) hs of
        None \<Rightarrow> None
      | Some h \<Rightarrow> Some (drop (length name + 2) h))"

definition boundary_of :: "string \<Rightarrow> string \<Rightarrow> string option" where
  "boundary_of subtype v =
     (let p = ''multipart/'' @ subtype @ ''; boundary='' @ [DQ]
      in if starts_with v p \<and> DQ \<in> set (drop (length p) v)
         then Some (takeWhile (\<lambda>c. c \<noteq> DQ) (drop (length p) v)) else None)"

definition is_blank :: "char \<Rightarrow> bool" where
  "is_blank c = (c = CHR '' '' \<or> c = CHR 0x09)"

definition is_delimiter :: "string \<Rightarrow> string \<Rightarrow> bool" where
  "is_delimiter B l = (starts_with l (''--'' @ B) \<and> list_all is_blank (drop (length B + 2) l))"

definition is_close :: "string \<Rightarrow> string \<Rightarrow> bool" where
  "is_close B l = (starts_with l (''--'' @ B @ ''--'') \<and> list_all is_blank (drop (length B + 4) l))"

fun collect_parts :: "string \<Rightarrow> string list \<Rightarrow> string list \<Rightarrow> string list list option" where
  "collect_parts B cur [] = None"
| "collect_parts B cur (l # ls) =
     (if is_close B l then Some [cur]
      else if is_delimiter B l then
        (case collect_parts B [] ls of None \<Rightarrow> None | Some ps \<Rightarrow> Some (cur # ps))
      else collect_parts B (cur @ [l]) ls)"

fun skip_preamble :: "string \<Rightarrow> string list \<Rightarrow> string list list option" where
  "skip_preamble B [] = None"
| "skip_preamble B (l # ls) =
     (if is_close B l then None
      else if is_delimiter B l then collect_parts B [] ls
      else skip_preamble B ls)"

text \<open>The parts of a multipart entity of the given subtype, each as its lines.\<close>

definition parse_multipart :: "string \<Rightarrow> string list \<Rightarrow> string list list option" where
  "parse_multipart subtype ls =
     (case field_value ''Content-Type'' (header_block ls) of
        None \<Rightarrow> None
      | Some v \<Rightarrow>
          (case boundary_of subtype v of
             None \<Rightarrow> None
           | Some B \<Rightarrow> skip_preamble B (body_block ls)))"

text \<open>What the receiver of the raw payload reads: the parts of a multipart/mixed MIME message.\<close>

definition read_payload :: "string \<Rightarrow> string list list option" where
  "read_payload raw =
     (let ls = split_crlf (base64url_decode raw)
      in if field_value ''MIME-Version'' (header_block ls) = Some ''1.0''
         then parse_multipart ''mixed'' ls else None)"


text \<open>Lines put together, each with its line break; and the raw payloads of the send requests of a history.\<close>

definition unlines :: "string list \<Rightarrow> string" where
  "unlines ls = concat (map (\<lambda>l. l @ CRLF) ls)"

fun sent_payloads :: "history \<Rightarrow> string list" where
  "sent_payloads [] = []"
| "sent_payloads (MessagesSend p # cs) = sp_raw p # sent_payloads cs"
| "sent_payloads (c # cs) = sent_payloads cs"

text \<open>
  The pieces of a message with attachments, as the reader is to find them: the two
  boundaries drawn in a world, the content type and the file name written for an
  attachment (lines 396--397), the lines of the part of one attachment, the text of
  lines 367--378 (from the first delimiter of the inner boundary to the empty line after
  its closing delimiter), and the lines of the part that holds it.
\<close>

definition mixed_boundary_of :: "world \<Rightarrow> string" where
  "mixed_boundary_of w = fst (make_boundary ''Mixed'' w)"

definition alternative_boundary_of :: "world \<Rightarrow> string" where
  "alternative_boundary_of w = fst (make_boundary ''Alternative'' (snd (make_boundary ''Mixed'' w)))"

definition content_type_of :: "attachment \<Rightarrow> string" where
  "content_type_of a =
     (if truthy (at_contentType a) then the (at_contentType a) else ''application/octet-stream'')"

definition filename_of :: "attachment \<Rightarrow> string" where
  "filename_of a = (if truthy (at_filename a) then the (at_filename a) else basename (at_path a))"

definition attachment_part :: "world \<Rightarrow> attachment \<Rightarrow> string list" where
  "attachment_part w a =
     [''Content-Type: '' @ content_type_of a,
      ''Content-Disposition: attachment; filename='' @ [DQ] @ filename_of a @ [DQ],
      ''Content-Transfer-Encoding: base64'',
      [],
      base64 (the (fs w (at_path a))),
      []]"

definition alternative_text :: "string \<Rightarrow> string option \<Rightarrow> string \<Rightarrow> string" where
  "alternative_text altBoundary body htmlBody =
     alternatives altBoundary body htmlBody @ ''--'' @ altBoundary @ ''--'' @ CRLF @ CRLF"

definition alternative_part :: "string \<Rightarrow> string option \<Rightarrow> string \<Rightarrow> string list" where
  "alternative_part altBoundary body htmlBody =
     [''Content-Type: multipart/alternative; boundary='' @ [DQ] @ altBoundary @ [DQ], []]
     @ butlast (split_crlf (alternative_text altBoundary body htmlBody))"

section \<open>A concrete platform and world\<close>

text \<open>
  A provider that refuses the identifier \<open>bad\<close> and every batch request, a client
  file and a token file, and one attachment. The instances below are evaluated on them.
\<close>

definition demo_token :: token where
  "demo_token = \<lparr>refresh_token = Some ''r0'', access_token = Some ''a0'', expiry_date = None\<rparr>"

definition demo_client :: oauth2_client where
  "demo_client = \<lparr>oc_keys = \<lparr>client_id = ''id'', client_secret = ''secret''\<rparr>,
                   oc_credentials = demo_token\<rparr>"

definition demo_message :: message_data where
  "demo_message = \<lparr>md_id = ''m1'', md_threadId = ''t1'', md_labelIds = [''INBOX''],
     md_snippet = ''hello'',
     md_payload = \<lparr>pl_headers = [\<lparr>h_name = ''From'', h_value = ''a@example.com''\<rparr>],
                   pl_body_data = Some ''eHh4'', pl_parts = None\<rparr>\<rparr>"

definition demo_message2 :: message_data where
  "demo_message2 = demo_message\<lparr>md_id := ''m2'',
     md_payload := \<lparr>pl_headers = [], pl_body_data = None,
       pl_parts = Some [\<lparr>pt_mimeType = ''text/html'', pt_body_data = Some ''PGI+''\<rparr>,
                        \<lparr>pt_mimeType = ''text/plain'', pt_body_data = Some ''short''\<rparr>]\<rparr>\<rparr>"

definition demo_platform :: platform where
  "demo_platform = \<lparr>
     parse_credentials = (\<lambda>s. Inr \<lparr>installed = Some \<lparr>client_id = ''id'', client_secret = ''secret''\<rparr>,
                                     web = None\<rparr>),
     parse_token = (\<lambda>s. if s = ''stale'' then Inr (demo_token\<lparr>expiry_date := Some 1\<rparr>)
                         else Inr demo_token),
     stringify_token = (\<lambda>t. ''token''),
     stringify_result = (\<lambda>r. ''result''),
     runtime_error = (\<lambda>f. Error ''TypeError''),
     decode_base64_utf8 = (\<lambda>s. if s = ''short'' then replicate 5000 (CHR ''x'')
                                else replicate 5001 (CHR ''x'')),
     refreshAccessToken = (\<lambda>c h. Inl (Error ''invalid_grant'')),
     messages_list = (\<lambda>c h p. Inr \<lparr>ld_messages = None, ld_resultSizeEstimate = Some 0\<rparr>),
     messages_get = (\<lambda>c h p. if gp_id p = Some ''m2'' then Inr demo_message2 else Inr demo_message),
     messages_trash = (\<lambda>c h i. if i = ''bad'' then Inl (Error ''Not Found'') else Inr ()),
     messages_modify = (\<lambda>c h p. if mp_id p = ''bad'' then Inl (Error ''Not Found'') else Inr ()),
     messages_batchModify = (\<lambda>c h p. Inl (Error ''Invalid ids'')),
     messages_send = (\<lambda>c h p. Inr \<lparr>sd_id = ''m2'', sd_threadId = ''t2''\<rparr>),
     labels_list = (\<lambda>c h. Inr []),
     labels_create = (\<lambda>c h b. Inl (Error ''Label exists'')),
     labels_delete = (\<lambda>c h i. Inr ())\<rparr>"

definition demo_world :: world where
  "demo_world = \<lparr>
     env_credentials_path = None, env_token_path = None,
     default_credentials_path = ''credentials.json'', default_token_path = ''token.json'',
     fs = (\<lambda>p. if p = ''credentials.json'' then Some ''creds''
               else if p = ''token.json'' then Some ''fresh''
               else if p = ''/tmp/a.bin'' then Some ''hi'' else None),
     write_error = (\<lambda>p. None),
     clock = (\<lambda>n. 1700000000000 + n), ticks = 0,
     random36 = (\<lambda>n. [n, 10, 35]), draws = 0,
     calls = [], stderr = []\<rparr>"

text \<open>The same world with a token that expired, and with no token file.\<close>

definition stale_world :: world where
  "stale_world = demo_world\<lparr>fs := (fs demo_world)(''token.json'' \<mapsto> ''stale'')\<rparr>"


definition demo_ids :: tool_args where
  "demo_ids = no_args\<lparr>a_messageIds := Some [''a'', ''bad'', ''c'']\<rparr>"

text \<open>
  Send requests: a plain and an HTML body with one attachment; the same with a line
  break and an empty line inside the subject, with a body that holds the delimiter of
  the outer boundary, and with an attachment whose file is missing; a plain reply within
  a thread, and a plain message.
\<close>

definition demo_send :: tool_args where
  "demo_send = no_args\<lparr>a_to := Some ''a@example.com'', a_subject := Some ''Hi'',
     a_body := Some ''plain text'', a_htmlBody := Some ''<p>rich</p>'',
     a_attachments := Some [\<lparr>at_path = ''/tmp/a.bin'', at_filename = None, at_contentType = None\<rparr>]\<rparr>"


definition demo_send_collision :: tool_args where
  "demo_send_collision = demo_send\<lparr>a_body :=
     Some (''see'' @ CRLF @ ''------=_Mixed_1700000000000_0az'' @ CRLF @ ''below'')\<rparr>"

definition demo_send_missing :: tool_args where
  "demo_send_missing = demo_send\<lparr>a_attachments :=
     Some [\<lparr>at_path = ''/tmp/none'', at_filename = None, at_contentType = None\<rparr>]\<rparr>"





section \<open>Facts about strings\<close>










section \<open>Requests issued by the credential store\<close>

lemma calls_issue: "calls (issue c w) = calls w @ [c]"
  by (simp add: issue_def)

lemma calls_on_tokens: "calls (snd (on_tokens P path R T w)) = calls w"
  by (simp add: on_tokens_def writeFileSync_def Let_def split: sum.splits option.splits)

lemma calls_proactive_refresh:
  "calls (proactive_refresh P path client T w) = calls w
   \<or> calls (proactive_refresh P path client T w) = calls w @ [RefreshAccessToken]"
  by (simp add: proactive_refresh_def date_now_def calls_on_tokens calls_issue split: sum.splits)

lemma getGmailClient_Inl: "getGmailClient P w = (Inl e, w1) \<Longrightarrow> w1 = w"
  by (auto simp add: getGmailClient_def Let_def split: if_splits sum.splits option.splits)

lemma getGmailClient_Inr:
  "getGmailClient P w = (Inr c, w1) \<Longrightarrow> \<exists>T. w1 = proactive_refresh P (getTokenPath w) c T w"
  by (auto simp add: getGmailClient_def Let_def split: if_splits sum.splits option.splits)

lemma calls_getGmailClient:
  assumes "getGmailClient P w = (r, w1)"
  shows "calls w1 = calls w \<or> calls w1 = calls w @ [RefreshAccessToken]"
proof (cases r)
  case (Inl e)
  with assms have "w1 = w" using getGmailClient_Inl by blast
  then show ?thesis by simp
next
  case (Inr c)
  with assms obtain T where "w1 = proactive_refresh P (getTokenPath w) c T w"
    using getGmailClient_Inr by blast
  then show ?thesis using calls_proactive_refresh by simp
qed

lemma gmail_calls_getGmailClient:
  assumes "getGmailClient P w = (r, w1)"
  shows "filter is_gmail_call (calls w1) = filter is_gmail_call (calls w)"
  using calls_getGmailClient [OF assms] by auto

lemma calls_getGmailClient_fresh:
  assumes "getGmailClient P w = (r, w1)" and "token_is_fresh P w"
  shows "calls w1 = calls w"
  using assms
  by (auto simp add: getGmailClient_def token_is_fresh_def existsSync_def proactive_refresh_def
      date_now_def Let_def split: if_splits sum.splits option.splits)

lemma calls_getGmailClient_stale:
  assumes "getGmailClient P w = (Inr c, w1)" and "\<not> token_is_fresh P w"
  shows "calls w1 = calls w @ [RefreshAccessToken]"
  using assms
  by (auto simp add: getGmailClient_def token_is_fresh_def existsSync_def proactive_refresh_def
      date_now_def calls_issue calls_on_tokens Let_def split: if_splits sum.splits option.splits)

lemma demo_getGmailClient: "getGmailClient demo_platform demo_world = (Inr demo_client, demo_world)"
  by (simp add: getGmailClient_def demo_platform_def demo_world_def getCredentialsPath_def
      getTokenPath_def or_else_def truthy_def existsSync_def proactive_refresh_def truthy_num_def
      demo_token_def demo_client_def Let_def)

lemma stale_getGmailClient:
  "getGmailClient demo_platform stale_world
     = (Inr (demo_client\<lparr>oc_credentials := demo_token\<lparr>expiry_date := Some 1\<rparr>\<rparr>),
        stale_world\<lparr>ticks := 1, calls := [RefreshAccessToken]\<rparr>)"
  by (simp add: getGmailClient_def demo_platform_def demo_world_def stale_world_def
      getCredentialsPath_def getTokenPath_def or_else_def truthy_def existsSync_def
      proactive_refresh_def truthy_num_def demo_token_def demo_client_def Let_def date_now_def
      issue_def)

lemma demo_calls: "calls demo_world = []"
  by (simp add: demo_world_def)

lemma demo_fresh: "token_is_fresh demo_platform demo_world"
  by (simp add: token_is_fresh_def demo_platform_def demo_world_def getTokenPath_def or_else_def
      truthy_def truthy_num_def demo_token_def)

lemma stale_not_fresh: "\<not> token_is_fresh demo_platform stale_world"
  by (simp add: token_is_fresh_def demo_platform_def demo_world_def stale_world_def getTokenPath_def
      or_else_def truthy_def truthy_num_def demo_token_def)

section \<open>Refresh keeps the refresh token\<close>

text \<open>
  C1. For every stored bundle whose refresh token is non-empty, the listener applied to a
  response that lacks a refresh token (undefined or empty) leaves the refresh token as it
  was. The access token and the expiry are those of the response when the response has
  them (a non-empty string, a non-zero number, which is how the code tests presence),
  and the stored ones otherwise.
\<close>

theorem refresh_token_preserved:
  assumes "refresh_token T = Some r" and "r \<noteq> []" and "\<not> truthy (refresh_token R)"
  shows "refresh_token (fst (on_tokens P path R T w)) = Some r
     \<and> access_token (fst (on_tokens P path R T w))
         = (if truthy (access_token R) then access_token R else access_token T)
     \<and> expiry_date (fst (on_tokens P path R T w))
         = (if truthy_num (expiry_date R) then expiry_date R else expiry_date T)"
  using assms
  by (simp add: on_tokens_def Let_def split: sum.splits)

theorem refresh_token_preserved_witness:
  "refresh_token demo_token = Some ''r0'' \<and> ''r0'' \<noteq> []
   \<and> \<not> truthy (refresh_token \<lparr>refresh_token = None, access_token = Some ''a1'', expiry_date = Some 7\<rparr>)
   \<and> fst (on_tokens demo_platform ''token.json''
        \<lparr>refresh_token = None, access_token = Some ''a1'', expiry_date = Some 7\<rparr> demo_token demo_world)
       = \<lparr>refresh_token = Some ''r0'', access_token = Some ''a1'', expiry_date = Some 7\<rparr>
   \<and> \<not> truthy (refresh_token \<lparr>refresh_token = Some [], access_token = None, expiry_date = Some 9\<rparr>)
   \<and> fst (on_tokens demo_platform ''token.json''
        \<lparr>refresh_token = Some [], access_token = None, expiry_date = Some 9\<rparr> demo_token demo_world)
       = \<lparr>refresh_token = Some ''r0'', access_token = Some ''a0'', expiry_date = Some 9\<rparr>"
proof -
  let ?R2 = "\<lparr>refresh_token = Some [], access_token = None, expiry_date = Some 9\<rparr>"
  have h4: "\<not> truthy (refresh_token ?R2)" by (simp add: truthy_def)
  let ?R = "\<lparr>refresh_token = None, access_token = Some ''a1'', expiry_date = Some 7\<rparr>"
  have h1: "refresh_token demo_token = Some ''r0''" by (simp add: demo_token_def)
  have h2: "''r0'' \<noteq> []" by simp
  have h3: "\<not> truthy (refresh_token ?R)" by (simp add: truthy_def)
  from refresh_token_preserved [OF h1 h2 h3, of demo_platform "''token.json''" demo_world]
    refresh_token_preserved [OF h1 h2 h4, of demo_platform "''token.json''" demo_world]
  show ?thesis
    using h1 h3 h4 by (simp add: truthy_def truthy_num_def token.equality demo_token_def)
qed

text \<open>The merged bundle is what the token file holds afterwards; a failed write leaves the file and logs a line.\<close>

lemma on_tokens_persists:
  assumes "write_error w path = None"
  shows "fs (snd (on_tokens P path R T w)) path = Some (stringify_token P (fst (on_tokens P path R T w)))"
  using assms by (simp add: on_tokens_def writeFileSync_def Let_def)

lemma on_tokens_write_fails:
  assumes "write_error w path = Some e"
  shows "fs (snd (on_tokens P path R T w)) = fs w"
    and "stderr (snd (on_tokens P path R T w)) = stderr w @ [''Failed to save refreshed token: '' @ err_message e]"
  using assms by (simp_all add: on_tokens_def writeFileSync_def Let_def)


section \<open>Send: the check of the required fields\<close>

text \<open>
  C3, as the code has it. The client is acquired before the fields are checked. Once it
  is acquired, a send request without recipient, without subject or without both bodies
  fails with the error of line 335, and no request to the mail API is made. The only call
  made before the error is the call of \<open>refreshAccessToken\<close> on the client: exactly one
  when the stored token expires within a minute, and none when it is fresh.
\<close>

theorem send_precondition:
  assumes client: "getGmailClient P w = (Inr gmail, w1)"
    and missing: "\<not> truthy (a_to args) \<or> \<not> truthy (a_subject args)
       \<or> (\<not> truthy (a_body args) \<and> \<not> truthy (a_htmlBody args))"
  shows "sendEmail P args w = (Inl precondition_error, w1)
     \<and> filter is_gmail_call (calls w1) = filter is_gmail_call (calls w)
     \<and> (calls w1 = calls w \<or> calls w1 = calls w @ [RefreshAccessToken])
     \<and> (token_is_fresh P w \<longrightarrow> calls w1 = calls w)
     \<and> (\<not> token_is_fresh P w \<longrightarrow> calls w1 = calls w @ [RefreshAccessToken])"
proof -
  have "sendEmail P args w = (Inl precondition_error, w1)"
    using client missing by (auto simp add: sendEmail_def precondition_error_def)
  then show ?thesis
    using calls_getGmailClient [OF client] gmail_calls_getGmailClient [OF client]
      calls_getGmailClient_fresh [OF client] calls_getGmailClient_stale [OF client] by simp
qed

theorem send_precondition_witness:
  "getGmailClient demo_platform demo_world = (Inr demo_client, demo_world)
   \<and> \<not> truthy (a_body (no_args\<lparr>a_to := Some ''a@example.com'', a_subject := Some ''hi''\<rparr>))
   \<and> \<not> truthy (a_htmlBody (no_args\<lparr>a_to := Some ''a@example.com'', a_subject := Some ''hi''\<rparr>))
   \<and> token_is_fresh demo_platform demo_world
   \<and> sendEmail demo_platform (no_args\<lparr>a_to := Some ''a@example.com'', a_subject := Some ''hi''\<rparr>) demo_world
       = (Inl precondition_error, demo_world)
   \<and> calls demo_world = []
   \<and> getGmailClient demo_platform stale_world
       = (Inr (demo_client\<lparr>oc_credentials := demo_token\<lparr>expiry_date := Some 1\<rparr>\<rparr>),
          stale_world\<lparr>ticks := 1, calls := [RefreshAccessToken]\<rparr>)
   \<and> \<not> token_is_fresh demo_platform stale_world
   \<and> sendEmail demo_platform (no_args\<lparr>a_to := Some ''a@example.com'', a_subject := Some ''hi''\<rparr>) stale_world
       = (Inl precondition_error, stale_world\<lparr>ticks := 1, calls := [RefreshAccessToken]\<rparr>)
   \<and> calls (stale_world\<lparr>ticks := 1, calls := [RefreshAccessToken]\<rparr>) = calls stale_world @ [RefreshAccessToken]"
proof -
  let ?args = "no_args\<lparr>a_to := Some ''a@example.com'', a_subject := Some ''hi''\<rparr>"
  have missing: "\<not> truthy (a_to ?args) \<or> \<not> truthy (a_subject ?args)
       \<or> (\<not> truthy (a_body ?args) \<and> \<not> truthy (a_htmlBody ?args))"
    by (simp add: no_args_def truthy_def)
  have fields: "\<not> truthy (a_body ?args)" "\<not> truthy (a_htmlBody ?args)"
    by (simp_all add: no_args_def truthy_def)
  from send_precondition [OF demo_getGmailClient missing] demo_fresh
  have one: "sendEmail demo_platform ?args demo_world = (Inl precondition_error, demo_world)"
    by blast
  from send_precondition [OF stale_getGmailClient missing] stale_not_fresh
  have two: "sendEmail demo_platform ?args stale_world
       = (Inl precondition_error, stale_world\<lparr>ticks := 1, calls := [RefreshAccessToken]\<rparr>)"
    and three: "calls (stale_world\<lparr>ticks := 1, calls := [RefreshAccessToken]\<rparr>)
       = calls stale_world @ [RefreshAccessToken]"
    by blast+
  show ?thesis
    using one two three fields demo_fresh stale_not_fresh demo_getGmailClient stale_getGmailClient
      demo_calls by blast
qed

text \<open>
  C3 as stated fails: with a stored token that has expired, the send request with no
  fields fails with the error of line 335 after the refresh of the token was called for.
\<close>

theorem send_precondition_counterexample:
  "fst (sendEmail demo_platform no_args stale_world) = Inl precondition_error
   \<and> calls stale_world = []
   \<and> calls (snd (sendEmail demo_platform no_args stale_world)) = [RefreshAccessToken]"
  by (simp add: sendEmail_def stale_getGmailClient no_args_def truthy_def precondition_error_def)
     (simp add: stale_world_def demo_world_def)

lemma send_without_client:
  "getGmailClient P w = (Inl e, w1) \<Longrightarrow> sendEmail P args w = (Inl e, w)"
  by (frule getGmailClient_Inl) (simp add: sendEmail_def)


section \<open>Per-item operations report each failure\<close>

lemma per_item_run:
  "per_item (\<lambda>i w. (answer (calls w) i, issue (mk i) w)) status ids rs w =
     (rs @ map (\<lambda>k. item_entry status (ids ! k) (answer (calls w @ map mk (take k ids)) (ids ! k)))
             [0..<length ids],
      w\<lparr>calls := calls w @ map mk ids\<rparr>)"
proof (induction ids arbitrary: rs w)
  case Nil
  then show ?case by simp
next
  case (Cons i ids)
  let ?f = "\<lambda>i w. (answer (calls w) i, issue (mk i) w)"
  have step: "per_item ?f status (i # ids) rs w
      = per_item ?f status ids (rs @ [item_entry status i (answer (calls w) i)]) (issue (mk i) w)"
    by (cases "answer (calls w) i") (simp_all add: item_entry_def)
  have world: "(issue (mk i) w)\<lparr>calls := calls (issue (mk i) w) @ map mk ids\<rparr>
      = w\<lparr>calls := calls w @ map mk (i # ids)\<rparr>"
    by (simp add: issue_def)
  show ?case
    unfolding step Cons.IH world
    by (simp add: map_upt_Suc calls_issue del: upt_Suc)
qed

lemma item_handler_run:
  assumes client: "getGmailClient P w = (Inr gmail, w1)"
    and ids: "a_messageIds args = Some ids"
  shows "item_handler op P args w =
     (let results = map (\<lambda>k. item_entry (item_status op) (ids ! k)
            (item_answer op P gmail args (calls w1 @ map (item_call op args) (take k ids)) (ids ! k)))
          [0..<length ids]
      in (Inr \<lparr>its_count = count_status (item_status op) results, its_results = results\<rparr>,
          w1\<lparr>calls := calls w1 @ map (item_call op args) ids\<rparr>))"
proof -
  let ?A = "\<lambda>h i. item_answer op P gmail args h i"
  let ?M = "\<lambda>i. item_call op args i"
  note run = per_item_run [where answer = ?A and mk = ?M and rs = "[]" and ids = ids and w = w1
      and status = "item_status op", simplified]
  show ?thesis
  proof (cases op)
    case TrashOp
    have "trash_request P gmail = (\<lambda>i w. (?A (calls w) i, issue (?M i) w))"
      by (rule ext)+ (simp add: trash_request_def TrashOp)
    then show ?thesis
      using client ids run by (simp add: trashEmails_def Let_def TrashOp)
  next
    case MarkReadOp
    have "modify_request P gmail None (Some [''UNREAD'']) = (\<lambda>i w. (?A (calls w) i, issue (?M i) w))"
      by (rule ext)+ (simp add: modify_request_def Let_def MarkReadOp)
    then show ?thesis
      using client ids run by (simp add: markAsRead_def Let_def MarkReadOp)
  next
    case ModifyOp
    have "modify_request P gmail (Some (case a_addLabelIds args of None \<Rightarrow> [] | Some l \<Rightarrow> l))
            (Some (case a_removeLabelIds args of None \<Rightarrow> [] | Some l \<Rightarrow> l))
        = (\<lambda>i w. (?A (calls w) i, issue (?M i) w))"
      by (rule ext)+ (simp add: modify_request_def Let_def ModifyOp)
    then show ?thesis
      using client ids run by (simp add: modifyEmailLabels_def Let_def ModifyOp)
  qed
qed

lemma item_status_not_error: "item_status op \<noteq> ''error''"
  by (cases op) simp_all

lemma count_all_but_one: "k < n \<Longrightarrow> length (filter (\<lambda>j. j \<noteq> k) [0..<n]) = n - 1"
proof (induction n)
  case 0
  then show ?case by simp
next
  case (Suc n)
  show ?case
  proof (cases "k < n")
    case True
    with Suc.IH show ?thesis by simp
  next
    case False
    with Suc.prems have "k = n" by simp
    then have "filter (\<lambda>j. j \<noteq> k) [0..<n] = [0..<n]"
      by (simp add: filter_id_conv)
    with \<open>k = n\<close> show ?thesis by simp
  qed
qed

lemma count_one_failure:
  assumes k: "k < n"
    and bad: "ir_status (f k) \<noteq> s"
    and good: "\<And>j. j < n \<Longrightarrow> j \<noteq> k \<Longrightarrow> ir_status (f j) = s"
  shows "count_status s (map f [0..<n]) = n - 1"
proof -
  have "filter (\<lambda>r. ir_status r = s) (map f [0..<n]) = map f (filter (\<lambda>j. j \<noteq> k) [0..<n])"
    unfolding filter_map comp_def
    by (rule arg_cong [where f="map f"], rule filter_cong) (use bad good in auto)
  moreover have "length (filter (\<lambda>j. j \<noteq> k) [0..<n]) = n - 1"
    using k by (rule count_all_but_one)
  ultimately show ?thesis by (simp add: count_status_def)
qed

text \<open>
  C4. For trash, mark read and modify labels, on a list of N identifiers where the
  provider refuses exactly the k-th request: the handler returns a result, all N requests
  are issued in order, the success count is N - 1, the k-th entry carries the message of
  the error, and every other entry reports success.
\<close>

theorem per_item_one_failure:
  assumes client: "getGmailClient P w = (Inr gmail, w1)"
    and ids: "a_messageIds args = Some ids"
    and k: "k < length ids"
    and fails: "item_answer op P gmail args (calls w1 @ map (item_call op args) (take k ids)) (ids ! k) = Inl e"
    and others: "\<forall>j<length ids. j \<noteq> k \<longrightarrow>
        item_answer op P gmail args (calls w1 @ map (item_call op args) (take j ids)) (ids ! j) = Inr ()"
  shows "\<exists>r w2. item_handler op P args w = (Inr r, w2)
     \<and> its_count r = length ids - 1
     \<and> length (its_results r) = length ids
     \<and> its_results r ! k = \<lparr>ir_id = ids ! k, ir_status = ''error'', ir_error = Some (err_message e)\<rparr>
     \<and> (\<forall>j<length ids. j \<noteq> k \<longrightarrow>
          its_results r ! j = \<lparr>ir_id = ids ! j, ir_status = item_status op, ir_error = None\<rparr>)
     \<and> calls w2 = calls w1 @ map (item_call op args) ids"
proof -
  let ?entry = "\<lambda>k. item_entry (item_status op) (ids ! k)
      (item_answer op P gmail args (calls w1 @ map (item_call op args) (take k ids)) (ids ! k))"
  have bad: "?entry k = \<lparr>ir_id = ids ! k, ir_status = ''error'', ir_error = Some (err_message e)\<rparr>"
    using fails by (simp add: item_entry_def)
  have good: "?entry j = \<lparr>ir_id = ids ! j, ir_status = item_status op, ir_error = None\<rparr>"
    if "j < length ids" "j \<noteq> k" for j
    using others that by (simp add: item_entry_def)
  have count: "count_status (item_status op) (map ?entry [0..<length ids]) = length ids - 1"
  proof (rule count_one_failure [OF k])
    show "ir_status (?entry k) \<noteq> item_status op"
      using item_status_not_error [of op] by (simp add: bad)
    show "ir_status (?entry j) = item_status op" if "j < length ids" "j \<noteq> k" for j
      using good [OF that] by simp
  qed
  show ?thesis
    unfolding item_handler_run [OF client ids] Let_def
    using k bad good count by simp
qed

lemma demo_answers:
  "item_answer op demo_platform demo_client demo_ids
      (calls demo_world @ map (item_call op demo_ids) (take 1 [''a'', ''bad'', ''c'']))
      ([''a'', ''bad'', ''c''] ! 1) = Inl (Error ''Not Found'')"
  "\<forall>j<length [''a'', ''bad'', ''c'']. j \<noteq> 1 \<longrightarrow>
      item_answer op demo_platform demo_client demo_ids
        (calls demo_world @ map (item_call op demo_ids) (take j [''a'', ''bad'', ''c'']))
        ([''a'', ''bad'', ''c''] ! j) = Inr ()"
  by (cases op; simp add: demo_platform_def less_Suc_eq nth_Cons')+

lemma demo_one_failure:
  assumes run: "\<exists>r w2. item_handler op demo_platform demo_ids demo_world = (Inr r, w2)
     \<and> its_count r = length [''a'', ''bad'', ''c''] - 1
     \<and> length (its_results r) = length [''a'', ''bad'', ''c'']
     \<and> its_results r ! 1 = \<lparr>ir_id = [''a'', ''bad'', ''c''] ! 1, ir_status = ''error'',
          ir_error = Some (err_message (Error ''Not Found''))\<rparr>
     \<and> (\<forall>j<length [''a'', ''bad'', ''c'']. j \<noteq> 1 \<longrightarrow>
          its_results r ! j = \<lparr>ir_id = [''a'', ''bad'', ''c''] ! j, ir_status = item_status op, ir_error = None\<rparr>)
     \<and> calls w2 = calls demo_world @ map (item_call op demo_ids) [''a'', ''bad'', ''c'']"
    and status: "item_status op = s"
  shows "\<exists>r w2. item_handler op demo_platform demo_ids demo_world = (Inr r, w2)
     \<and> its_count r = 2
     \<and> its_results r = [\<lparr>ir_id = ''a'', ir_status = s, ir_error = None\<rparr>,
                         \<lparr>ir_id = ''bad'', ir_status = ''error'', ir_error = Some ''Not Found''\<rparr>,
                         \<lparr>ir_id = ''c'', ir_status = s, ir_error = None\<rparr>]
     \<and> calls w2 = map (item_call op demo_ids) [''a'', ''bad'', ''c'']"
proof -
  from run obtain r w2 where r: "item_handler op demo_platform demo_ids demo_world = (Inr r, w2)"
    and c: "its_count r = 2" and n: "length (its_results r) = 3"
    and e1: "its_results r ! 1 = \<lparr>ir_id = ''bad'', ir_status = ''error'', ir_error = Some ''Not Found''\<rparr>"
    and rest: "\<forall>j<3. j \<noteq> 1 \<longrightarrow> its_results r ! j
        = \<lparr>ir_id = [''a'', ''bad'', ''c''] ! j, ir_status = s, ir_error = None\<rparr>"
    and cs: "calls w2 = map (item_call op demo_ids) [''a'', ''bad'', ''c'']"
    using status by (auto simp add: Error_def demo_calls)
  from rest have e0: "its_results r ! 0 = \<lparr>ir_id = ''a'', ir_status = s, ir_error = None\<rparr>"
    and e2: "its_results r ! 2 = \<lparr>ir_id = ''c'', ir_status = s, ir_error = None\<rparr>"
    by simp_all
  have "its_results r = [its_results r ! 0, its_results r ! 1, its_results r ! 2]"
    using n by (auto simp add: list_eq_iff_nth_eq less_Suc_eq eval_nat_numeral nth_Cons')
  with e0 e1 e2 have "its_results r = [\<lparr>ir_id = ''a'', ir_status = s, ir_error = None\<rparr>,
                         \<lparr>ir_id = ''bad'', ir_status = ''error'', ir_error = Some ''Not Found''\<rparr>,
                         \<lparr>ir_id = ''c'', ir_status = s, ir_error = None\<rparr>]"
    by simp
  with r c cs show ?thesis by blast
qed

theorem per_item_one_failure_witness:
  "(\<exists>r w2. trashEmails demo_platform demo_ids demo_world = (Inr r, w2)
     \<and> its_count r = 2
     \<and> its_results r = [\<lparr>ir_id = ''a'', ir_status = ''trashed'', ir_error = None\<rparr>,
                         \<lparr>ir_id = ''bad'', ir_status = ''error'', ir_error = Some ''Not Found''\<rparr>,
                         \<lparr>ir_id = ''c'', ir_status = ''trashed'', ir_error = None\<rparr>]
     \<and> calls w2 = [MessagesTrash ''a'', MessagesTrash ''bad'', MessagesTrash ''c''])
   \<and> (\<exists>r w2. markAsRead demo_platform demo_ids demo_world = (Inr r, w2)
     \<and> its_count r = 2
     \<and> its_results r = [\<lparr>ir_id = ''a'', ir_status = ''marked_read'', ir_error = None\<rparr>,
                         \<lparr>ir_id = ''bad'', ir_status = ''error'', ir_error = Some ''Not Found''\<rparr>,
                         \<lparr>ir_id = ''c'', ir_status = ''marked_read'', ir_error = None\<rparr>])
   \<and> (\<exists>r w2. modifyEmailLabels demo_platform demo_ids demo_world = (Inr r, w2)
     \<and> its_count r = 2
     \<and> its_results r = [\<lparr>ir_id = ''a'', ir_status = ''modified'', ir_error = None\<rparr>,
                         \<lparr>ir_id = ''bad'', ir_status = ''error'', ir_error = Some ''Not Found''\<rparr>,
                         \<lparr>ir_id = ''c'', ir_status = ''modified'', ir_error = None\<rparr>])"
proof -
  have ids: "a_messageIds demo_ids = Some [''a'', ''bad'', ''c'']"
    by (simp add: demo_ids_def no_args_def)
  have k: "(1::nat) < length [''a'', ''bad'', ''c'']" by simp
  have run: "\<exists>r w2. item_handler op demo_platform demo_ids demo_world = (Inr r, w2)
     \<and> its_count r = length [''a'', ''bad'', ''c''] - 1
     \<and> length (its_results r) = length [''a'', ''bad'', ''c'']
     \<and> its_results r ! 1 = \<lparr>ir_id = [''a'', ''bad'', ''c''] ! 1, ir_status = ''error'',
          ir_error = Some (err_message (Error ''Not Found''))\<rparr>
     \<and> (\<forall>j<length [''a'', ''bad'', ''c'']. j \<noteq> 1 \<longrightarrow>
          its_results r ! j = \<lparr>ir_id = [''a'', ''bad'', ''c''] ! j, ir_status = item_status op, ir_error = None\<rparr>)
     \<and> calls w2 = calls demo_world @ map (item_call op demo_ids) [''a'', ''bad'', ''c'']" for op
    by (rule per_item_one_failure [OF demo_getGmailClient ids k demo_answers])
  from demo_one_failure [OF run [of TrashOp], of "''trashed''"]
    demo_one_failure [OF run [of MarkReadOp], of "''marked_read''"]
    demo_one_failure [OF run [of ModifyOp], of "''modified''"]
  show ?thesis by simp blast
qed

section \<open>Get cuts the body at 5000\<close>

text \<open>
  C5. When the message is fetched, the body returned is the first 5000 units of the decoded
  body: never longer than 5000, a decoded body of 5001 units loses its last unit, and a
  decoded body of at most 5000 units is returned as it is.
\<close>

theorem get_body_cap:
  assumes client: "getGmailClient P w = (Inr gmail, w1)"
    and got: "messages_get P gmail (calls w1)
        \<lparr>gp_id = a_messageId args, gp_format = ''full'', gp_metadataHeaders = None\<rparr> = Inr data"
  shows "\<exists>r w2. getEmail P args w = (Inr r, w2)
     \<and> ed_body r = take 5000 (extract_body P (md_payload data))
     \<and> length (ed_body r) \<le> 5000
     \<and> (length (extract_body P (md_payload data)) = 5001 \<longrightarrow>
          length (ed_body r) = 5000 \<and> ed_body r = butlast (extract_body P (md_payload data)))
     \<and> (length (extract_body P (md_payload data)) \<le> 5000 \<longrightarrow>
          ed_body r = extract_body P (md_payload data))"
  using client got
  by (simp add: getEmail_def Let_def butlast_conv_take)


theorem get_body_cap_witness:
  "(\<exists>r w2. getEmail demo_platform (no_args\<lparr>a_messageId := Some ''m1''\<rparr>) demo_world = (Inr r, w2)
      \<and> length (extract_body demo_platform (md_payload demo_message)) = 5001
      \<and> length (ed_body r) = 5000
      \<and> ed_body r = butlast (extract_body demo_platform (md_payload demo_message)))
   \<and> (\<exists>r w2. getEmail demo_platform (no_args\<lparr>a_messageId := Some ''m2''\<rparr>) demo_world = (Inr r, w2)
      \<and> length (extract_body demo_platform (md_payload demo_message2)) = 5000
      \<and> ed_body r = extract_body demo_platform (md_payload demo_message2))"
proof -
  have got1: "messages_get demo_platform demo_client (calls demo_world)
      \<lparr>gp_id = a_messageId (no_args\<lparr>a_messageId := Some ''m1''\<rparr>), gp_format = ''full'',
        gp_metadataHeaders = None\<rparr> = Inr demo_message"
    by (simp add: demo_platform_def)
  have got2: "messages_get demo_platform demo_client (calls demo_world)
      \<lparr>gp_id = a_messageId (no_args\<lparr>a_messageId := Some ''m2''\<rparr>), gp_format = ''full'',
        gp_metadataHeaders = None\<rparr> = Inr demo_message2"
    by (simp add: demo_platform_def)
  have len1: "length (extract_body demo_platform (md_payload demo_message)) = 5001"
    by (simp add: extract_body_def demo_platform_def demo_message_def truthy_def)
  have len2: "length (extract_body demo_platform (md_payload demo_message2)) = 5000"
    by (simp add: extract_body_def demo_platform_def demo_message2_def demo_message_def truthy_def)
  from get_body_cap [OF demo_getGmailClient got1] len1
  have one: "\<exists>r w2. getEmail demo_platform (no_args\<lparr>a_messageId := Some ''m1''\<rparr>) demo_world = (Inr r, w2)
      \<and> length (extract_body demo_platform (md_payload demo_message)) = 5001
      \<and> length (ed_body r) = 5000
      \<and> ed_body r = butlast (extract_body demo_platform (md_payload demo_message))"
    by auto
  from get_body_cap [OF demo_getGmailClient got2] len2
  have two: "\<exists>r w2. getEmail demo_platform (no_args\<lparr>a_messageId := Some ''m2''\<rparr>) demo_world = (Inr r, w2)
      \<and> length (extract_body demo_platform (md_payload demo_message2)) = 5000
      \<and> ed_body r = extract_body demo_platform (md_payload demo_message2)"
    by auto
  from one two show ?thesis by (rule conjI)
qed

section \<open>Search and list\<close>

lemma fetch_details_calls: "\<exists>rest. calls (snd (fetch_details P g ms es w)) = calls w @ rest"
proof (induction ms arbitrary: es w)
  case Nil
  then show ?case by simp
next
  case (Cons m ms)
  show ?case
  proof (cases "messages_get P g (calls w)
      \<lparr>gp_id = Some (mr_id m), gp_format = ''metadata'',
        gp_metadataHeaders = Some [''From'', ''Subject'', ''Date'']\<rparr>")
    case (Inl e)
    then show ?thesis by (simp add: Let_def calls_issue)
  next
    case (Inr d)
    obtain rest where "calls (snd (fetch_details P g ms
        (es @ [\<lparr>es_id = mr_id m, es_threadId = mr_threadId m,
                es_from = getHeader (pl_headers (md_payload d)) ''From'',
                es_subject = getHeader (pl_headers (md_payload d)) ''Subject'',
                es_date = getHeader (pl_headers (md_payload d)) ''Date'',
                es_snippet = md_snippet d\<rparr>])
        (issue (MessagesGet \<lparr>gp_id = Some (mr_id m), gp_format = ''metadata'',
        gp_metadataHeaders = Some [''From'', ''Subject'', ''Date'']\<rparr>) w))) =
        calls (issue (MessagesGet \<lparr>gp_id = Some (mr_id m), gp_format = ''metadata'',
        gp_metadataHeaders = Some [''From'', ''Subject'', ''Date'']\<rparr>) w) @ rest"
      using Cons.IH by blast
    with Inr show ?thesis by (simp add: Let_def calls_issue)
  qed
qed

lemma listEmails_first_call:
  assumes client: "getGmailClient P w = (Inr gmail, w1)"
  shows "\<exists>rest. calls (snd (listEmails P args w)) = calls w1 @
     MessagesList \<lparr>lp_maxResults = (case a_maxResults args of None \<Rightarrow> 10 | Some m \<Rightarrow> m),
                   lp_q = (case a_query args of None \<Rightarrow> [] | Some q \<Rightarrow> q),
                   lp_labelIds = Some (case a_labelIds args of None \<Rightarrow> [''INBOX''] | Some l \<Rightarrow> l)\<rparr> # rest"
proof -
  let ?params = "\<lparr>lp_maxResults = (case a_maxResults args of None \<Rightarrow> 10 | Some m \<Rightarrow> m),
                   lp_q = (case a_query args of None \<Rightarrow> [] | Some q \<Rightarrow> q),
                   lp_labelIds = Some (case a_labelIds args of None \<Rightarrow> [''INBOX''] | Some l \<Rightarrow> l)\<rparr>"
  show ?thesis
  proof (cases "messages_list P gmail (calls w1) ?params")
    case (Inl e)
    then show ?thesis using client by (simp add: listEmails_def Let_def calls_issue)
  next
    case (Inr data)
    obtain rest where rest: "calls (snd (fetch_details P gmail
        (case ld_messages data of None \<Rightarrow> [] | Some ms \<Rightarrow> ms) [] (issue (MessagesList ?params) w1)))
        = calls (issue (MessagesList ?params) w1) @ rest"
      using fetch_details_calls by blast
    show ?thesis
      using client Inr rest
      by (auto simp add: listEmails_def Let_def calls_issue split: prod.splits sum.splits)
  qed
qed

text \<open>
  C6. For every query string and cap, search returns what list returns for the same cap,
  the empty label list and the same query; and the list request that reaches the provider
  carries the query unchanged.
\<close>

theorem search_is_list:
  assumes "a_query args = Some query" and "a_maxResults args = Some cap"
  shows "searchEmails P args w = search_as_list P query cap w
     \<and> (\<forall>gmail w1. getGmailClient P w = (Inr gmail, w1) \<longrightarrow>
          (\<exists>rest. calls (snd (searchEmails P args w)) = calls w1 @
             MessagesList \<lparr>lp_maxResults = cap, lp_q = query, lp_labelIds = Some []\<rparr> # rest))"
proof -
  have eq: "searchEmails P args w = search_as_list P query cap w"
    using assms by (simp add: searchEmails_def search_as_list_def Let_def no_args_def)
  show ?thesis
    unfolding eq
    using listEmails_first_call [of P w _ _ "no_args\<lparr>a_maxResults := Some cap, a_query := Some query, a_labelIds := Some []\<rparr>"]
    by (simp add: search_as_list_def)
qed

theorem search_is_list_witness:
  "a_query (no_args\<lparr>a_query := Some ''from:x'', a_maxResults := Some 5\<rparr>) = Some ''from:x''
   \<and> a_maxResults (no_args\<lparr>a_query := Some ''from:x'', a_maxResults := Some 5\<rparr>) = Some 5
   \<and> searchEmails demo_platform (no_args\<lparr>a_query := Some ''from:x'', a_maxResults := Some 5\<rparr>) demo_world
       = search_as_list demo_platform ''from:x'' 5 demo_world
   \<and> (\<exists>rest. calls (snd (searchEmails demo_platform
          (no_args\<lparr>a_query := Some ''from:x'', a_maxResults := Some 5\<rparr>) demo_world))
        = MessagesList \<lparr>lp_maxResults = 5, lp_q = ''from:x'', lp_labelIds = Some []\<rparr> # rest)"
proof -
  let ?args = "no_args\<lparr>a_query := Some ''from:x'', a_maxResults := Some 5\<rparr>"
  have q: "a_query ?args = Some ''from:x''" by simp
  have c: "a_maxResults ?args = Some 5" by simp
  from search_is_list [OF q c, of demo_platform demo_world]
  have eq: "searchEmails demo_platform ?args demo_world = search_as_list demo_platform ''from:x'' 5 demo_world"
    and "\<forall>gmail w1. getGmailClient demo_platform demo_world = (Inr gmail, w1) \<longrightarrow>
          (\<exists>rest. calls (snd (searchEmails demo_platform ?args demo_world)) = calls w1 @
             MessagesList \<lparr>lp_maxResults = 5, lp_q = ''from:x'', lp_labelIds = Some []\<rparr> # rest)"
    by blast+
  with demo_getGmailClient obtain rest where
    "calls (snd (searchEmails demo_platform ?args demo_world)) = calls demo_world @
       MessagesList \<lparr>lp_maxResults = 5, lp_q = ''from:x'', lp_labelIds = Some []\<rparr> # rest"
    by blast
  then have "\<exists>rest. calls (snd (searchEmails demo_platform ?args demo_world)) =
       MessagesList \<lparr>lp_maxResults = 5, lp_q = ''from:x'', lp_labelIds = Some []\<rparr> # rest"
    by (simp add: demo_calls)
  with q c eq show ?thesis by blast
qed

text \<open>
  C10. With the client acquired, the list request of \<open>listEmails\<close> carries the cap 10,
  the empty query and the label INBOX wherever the argument object omits the field, and
  the list request of \<open>searchEmails\<close> carries the cap 20 when the cap is omitted and
  always the empty label list.
\<close>

theorem list_search_defaults:
  assumes client: "getGmailClient P w = (Inr gmail, w1)"
  shows "(\<exists>rest. calls (snd (listEmails P args w)) = calls w1 @
            MessagesList \<lparr>lp_maxResults = (case a_maxResults args of None \<Rightarrow> 10 | Some m \<Rightarrow> m),
                          lp_q = (case a_query args of None \<Rightarrow> [] | Some q \<Rightarrow> q),
                          lp_labelIds = Some (case a_labelIds args of None \<Rightarrow> [''INBOX''] | Some l \<Rightarrow> l)\<rparr>
            # rest)
     \<and> (\<exists>rest. calls (snd (searchEmails P args w)) = calls w1 @
            MessagesList \<lparr>lp_maxResults = (case a_maxResults args of None \<Rightarrow> 20 | Some m \<Rightarrow> m),
                          lp_q = (case a_query args of None \<Rightarrow> [] | Some q \<Rightarrow> q),
                          lp_labelIds = Some []\<rparr>
            # rest)"
proof
  show "\<exists>rest. calls (snd (listEmails P args w)) = calls w1 @
            MessagesList \<lparr>lp_maxResults = (case a_maxResults args of None \<Rightarrow> 10 | Some m \<Rightarrow> m),
                          lp_q = (case a_query args of None \<Rightarrow> [] | Some q \<Rightarrow> q),
                          lp_labelIds = Some (case a_labelIds args of None \<Rightarrow> [''INBOX''] | Some l \<Rightarrow> l)\<rparr>
            # rest"
    by (rule listEmails_first_call [OF client])
  show "\<exists>rest. calls (snd (searchEmails P args w)) = calls w1 @
            MessagesList \<lparr>lp_maxResults = (case a_maxResults args of None \<Rightarrow> 20 | Some m \<Rightarrow> m),
                          lp_q = (case a_query args of None \<Rightarrow> [] | Some q \<Rightarrow> q),
                          lp_labelIds = Some []\<rparr>
            # rest"
    using listEmails_first_call [OF client, of "no_args\<lparr>a_query := a_query args,
        a_maxResults := Some (case a_maxResults args of None \<Rightarrow> 20 | Some m \<Rightarrow> m), a_labelIds := Some []\<rparr>"]
    by (simp add: searchEmails_def Let_def)
qed

theorem list_search_defaults_witness:
  "getGmailClient demo_platform demo_world = (Inr demo_client, demo_world)
   \<and> (\<exists>rest. calls (snd (listEmails demo_platform no_args demo_world))
        = MessagesList \<lparr>lp_maxResults = 10, lp_q = [], lp_labelIds = Some [''INBOX'']\<rparr> # rest)
   \<and> (\<exists>rest. calls (snd (searchEmails demo_platform no_args demo_world))
        = MessagesList \<lparr>lp_maxResults = 20, lp_q = [], lp_labelIds = Some []\<rparr> # rest)"
proof -
  have "a_maxResults no_args = None" "a_query no_args = None" "a_labelIds no_args = None"
    by (simp_all add: no_args_def)
  with list_search_defaults [OF demo_getGmailClient, of no_args]
  show ?thesis
    by (simp add: demo_getGmailClient demo_calls)
qed

section \<open>Batch modify is one request\<close>

text \<open>
  C7. With the client acquired, \<open>batchModifyLabels\<close> issues exactly one request, the
  batch request for the whole list. If the provider refuses it, the handler fails with
  that error, and the response of the dispatcher is the error flag and the text of the
  error: no list of outcomes and no count.
\<close>

theorem batch_single_call:
  assumes client: "getGmailClient P w = (Inr gmail, w1)"
  shows "calls (snd (batchModifyLabels P args w)) = calls w1 @ [MessagesBatchModify (batch_request args)]
     \<and> (\<forall>e. messages_batchModify P gmail (calls w1) (batch_request args) = Inl e \<longrightarrow>
          fst (batchModifyLabels P args w) = Inl e
          \<and> fst (handle_call P \<lparr>cr_name = ''batch_modify_labels'', cr_arguments = Some args\<rparr> w)
              = \<lparr>resp_text = ''Error: '' @ error_message e, resp_isError = True\<rparr>)"
  using client
  by (auto simp add: batchModifyLabels_def batch_request_def Let_def calls_issue handle_call_def
      run_tool_def as_result_def split: sum.splits option.splits)

theorem batch_single_call_witness:
  "getGmailClient demo_platform demo_world = (Inr demo_client, demo_world)
   \<and> calls (snd (batchModifyLabels demo_platform demo_ids demo_world))
       = [MessagesBatchModify \<lparr>bp_ids = Some [''a'', ''bad'', ''c''], bp_addLabelIds = [],
                                bp_removeLabelIds = []\<rparr>]
   \<and> fst (batchModifyLabels demo_platform demo_ids demo_world) = Inl (Error ''Invalid ids'')
   \<and> fst (handle_call demo_platform
            \<lparr>cr_name = ''batch_modify_labels'', cr_arguments = Some demo_ids\<rparr> demo_world)
       = \<lparr>resp_text = ''Error: Invalid ids'', resp_isError = True\<rparr>"
proof -
  have fails: "messages_batchModify demo_platform demo_client (calls demo_world) (batch_request demo_ids)
      = Inl (Error ''Invalid ids'')"
    by (simp add: demo_platform_def)
  have msg: "error_message (Error ''Invalid ids'') = ''Invalid ids''"
    by (simp add: error_message_def Error_def)
  have req: "batch_request demo_ids
      = \<lparr>bp_ids = Some [''a'', ''bad'', ''c''], bp_addLabelIds = [], bp_removeLabelIds = []\<rparr>"
    by (simp add: batch_request_def demo_ids_def no_args_def)
  from batch_single_call [OF demo_getGmailClient, of demo_ids] fails
  have "calls (snd (batchModifyLabels demo_platform demo_ids demo_world))
       = calls demo_world @ [MessagesBatchModify (batch_request demo_ids)]"
    and "fst (batchModifyLabels demo_platform demo_ids demo_world) = Inl (Error ''Invalid ids'')"
    and "fst (handle_call demo_platform
            \<lparr>cr_name = ''batch_modify_labels'', cr_arguments = Some demo_ids\<rparr> demo_world)
       = \<lparr>resp_text = ''Error: '' @ error_message (Error ''Invalid ids''), resp_isError = True\<rparr>"
    by blast+
  then show ?thesis
    by (simp add: demo_getGmailClient req msg demo_calls)
qed

section \<open>The dispatcher when the token file is absent\<close>










section \<open>The envelope: base64url and back\<close>

lemma sextet_arith:
  fixes x y z :: nat
  assumes "x < 256" and "y < 256" and "z < 256"
  shows "x div 4 < 64" and "(x mod 4) * 16 < 64" and "(x mod 4) * 16 + y div 16 < 64"
    and "(y mod 16) * 4 < 64" and "(y mod 16) * 4 + z div 64 < 64" and "z mod 64 < 64"
proof -
  have a: "x mod 4 < 4" and b: "y mod 16 < 16" by simp_all
  have c: "y div 16 < 16" and d: "z div 64 < 4"
    using assms by (simp_all add: div_less_iff_less_mult)
  show "x div 4 < 64" using assms by (simp add: div_less_iff_less_mult)
  show "(x mod 4) * 16 < 64" using a by arith
  show "(x mod 4) * 16 + y div 16 < 64" using a c by arith
  show "(y mod 16) * 4 < 64" using b by arith
  show "(y mod 16) * 4 + z div 64 < 64" using b d by arith
  show "z mod 64 < 64" by simp
qed

lemma sextets_bound: "n \<in> set (sextets bs) \<Longrightarrow> n < 64"
proof (induction bs arbitrary: n rule: sextets.induct)
  case 1
  then show ?case by simp
next
  case (2 a)
  then show ?case
    using sextet_arith [of "of_char a" 0 0] by (auto simp add: Let_def)
next
  case (3 a b)
  then show ?case
    using sextet_arith [of "of_char a" "of_char b" 0] by (auto simp add: Let_def)
next
  case (4 a b c rest)
  then show ?case
    using sextet_arith [of "of_char a" "of_char b" "of_char c"] by (auto simp add: Let_def)
qed

lemma b64_char_range:
  assumes "n < 64"
  shows "b64_char n \<noteq> CHR ''=''" "b64_char n \<noteq> CHR ''-''" "b64_char n \<noteq> CHR ''_''"
    "b64_char n \<noteq> CR" "b64_char n \<noteq> LF"
  using assms by (auto simp add: b64_char_def char_of_eq_iff take_bit_eq_mod CR_def LF_def)

lemma url_val_url_char: "n < 64 \<Longrightarrow> url_val (url_char n) = n"
  by (auto simp add: url_val_def url_char_def b64_val_def b64_char_def Let_def char_of_eq_iff take_bit_eq_mod)

lemma url_char_not_pad: "n < 64 \<Longrightarrow> url_char n \<noteq> CHR ''=''"
  using b64_char_range(1) [of n] by (simp add: url_char_def Let_def)

lemma strip_padding_append:
  assumes "xs \<noteq> []" and "last xs \<noteq> CHR ''=''"
  shows "strip_padding (xs @ ys) = xs @ strip_padding ys"
proof (cases "\<forall>c\<in>set ys. c = CHR ''=''")
  case True
  have "dropWhile (\<lambda>c. c = CHR ''='') (rev xs) = rev xs"
    using assms by (cases xs rule: rev_cases) simp_all
  moreover have "dropWhile (\<lambda>c. c = CHR ''='') (rev ys) = []"
    using True by simp
  ultimately show ?thesis
    using True by (simp add: strip_padding_def dropWhile_append)
next
  case False
  then show ?thesis
    by (auto simp add: strip_padding_def dropWhile_append)
qed

lemma url_of_simps:
  "url_of [] = []"
  "url_of (xs @ ys) = url_of xs @ url_of ys"
  "url_of [CHR ''=''] = [CHR ''='']"
  "url_of [b64_char n] = [url_char n]"
  "url_of (c # cs) = url_of [c] @ url_of cs"
  by (simp_all add: url_of_def replace_char_def url_char_def Let_def)

lemma encode_message_sextets: "encode_message bs = map url_char (sextets bs)"
proof -
  have "strip_padding (url_of (base64 bs)) = map url_char (sextets bs)"
  proof (induction bs rule: base64.induct)
    case 1
    show ?case by (simp add: url_of_def replace_char_def strip_padding_def)
  next
    case (2 a)
    let ?x = "of_char a :: nat"
    let ?two = "[url_char (?x div 4), url_char ((?x mod 4) * 16)]"
    have u: "url_of (base64 [a]) = ?two @ [CHR ''='', CHR ''='']"
      by (simp add: Let_def url_of_def replace_char_def url_char_def)
    have "strip_padding (?two @ [CHR ''='', CHR ''='']) = ?two @ strip_padding [CHR ''='', CHR ''='']"
      using sextet_arith(2) [of ?x 0 0] url_char_not_pad
      by (intro strip_padding_append) simp_all
    moreover have "strip_padding [CHR ''='', CHR ''=''] = []"
      by (simp add: strip_padding_def)
    ultimately have "strip_padding (url_of (base64 [a])) = ?two"
      unfolding u by simp
    then show ?case by (simp add: Let_def)
  next
    case (3 a b)
    let ?x = "of_char a :: nat" and ?y = "of_char b :: nat"
    let ?three = "[url_char (?x div 4), url_char ((?x mod 4) * 16 + ?y div 16),
            url_char ((?y mod 16) * 4)]"
    have u: "url_of (base64 [a, b]) = ?three @ [CHR ''='']"
      by (simp add: Let_def url_of_def replace_char_def url_char_def)
    have "strip_padding (?three @ [CHR ''='']) = ?three @ strip_padding [CHR ''='']"
      using sextet_arith(4) [of 0 ?y 0] url_char_not_pad
      by (intro strip_padding_append) simp_all
    moreover have "strip_padding [CHR ''=''] = []"
      by (simp add: strip_padding_def)
    ultimately have "strip_padding (url_of (base64 [a, b])) = ?three"
      unfolding u by simp
    then show ?case by (simp add: Let_def)
  next
    case (4 a b c rest)
    let ?x = "of_char a :: nat" and ?y = "of_char b :: nat" and ?z = "of_char c :: nat"
    let ?four = "[url_char (?x div 4), url_char ((?x mod 4) * 16 + ?y div 16),
            url_char ((?y mod 16) * 4 + ?z div 64), url_char (?z mod 64)]"
    have "strip_padding (?four @ url_of (base64 rest)) = ?four @ strip_padding (url_of (base64 rest))"
      using url_char_not_pad [of "?z mod 64"]
      by (intro strip_padding_append) simp_all
    moreover have "url_of (base64 (a # b # c # rest)) = ?four @ url_of (base64 rest)"
      by (simp add: Let_def url_of_def replace_char_def url_char_def)
    ultimately show ?case
      using 4 by (simp add: Let_def)
  qed
  then show ?thesis by (simp add: encode_message_def url_of_def)
qed

lemma decode_sextets_sextets: "decode_sextets (sextets bs) = bs"
proof (induction bs rule: sextets.induct)
  case 1
  show ?case by simp
next
  case (2 a)
  have "(of_char a :: nat) div 4 * 4 + of_char a mod 4 * 16 div 16 = of_char a"
    by simp
  then show ?case by (simp add: Let_def)
next
  case (3 a b)
  let ?x = "of_char a :: nat" and ?y = "of_char b :: nat"
  have y: "?y div 16 < 16" by (simp add: div_less_iff_less_mult)
  have "?x div 4 * 4 + (?x mod 4 * 16 + ?y div 16) div 16 = ?x"
    using y by simp
  moreover have "(?x mod 4 * 16 + ?y div 16) mod 16 * 16 + ?y mod 16 * 4 div 4 = ?y"
    using y by (simp add: mod_mult_self3 [of _ 16, simplified])
  ultimately show ?case by (simp add: Let_def)
next
  case (4 a b c rest)
  let ?x = "of_char a :: nat" and ?y = "of_char b :: nat" and ?z = "of_char c :: nat"
  have y: "?y div 16 < 16" by (simp add: div_less_iff_less_mult)
  have z: "?z div 64 < 4" by (simp add: div_less_iff_less_mult)
  have "?x div 4 * 4 + (?x mod 4 * 16 + ?y div 16) div 16 = ?x"
    using y by simp
  moreover have "(?x mod 4 * 16 + ?y div 16) mod 16 * 16 + (?y mod 16 * 4 + ?z div 64) div 4 = ?y"
    using y z by (simp add: mod_mult_self3 [of _ 16, simplified])
  moreover have "(?y mod 16 * 4 + ?z div 64) mod 4 * 64 + ?z mod 64 = ?z"
    using z by (simp add: mod_mult_self3 [of _ 4, simplified])
  ultimately show ?case using 4 by (simp add: Let_def)
qed

text \<open>Decoding the payload gives the bytes of the message back.\<close>

lemma base64url_roundtrip: "base64url_decode (encode_message bs) = bs"
proof -
  have "map (url_val \<circ> url_char) (sextets bs) = sextets bs"
    by (rule map_idI) (simp add: sextets_bound url_val_url_char)
  then show ?thesis
    by (simp add: base64url_decode_def encode_message_sextets decode_sextets_sextets)
qed

section \<open>Lines and parts\<close>

lemma CR_neq_LF: "CR \<noteq> LF"
  by (simp add: CR_def LF_def)

lemma split_crlf_nonempty: "split_crlf s \<noteq> []"
  by (induction s rule: split_crlf.induct) (auto split: list.splits)

lemma split_crlf_append: "split_crlf (xs @ CR # LF # ys) = split_crlf xs @ split_crlf ys"
proof (induction xs rule: split_crlf.induct)
  case 1
  show ?case by simp
next
  case (2 c)
  show ?case using CR_neq_LF by simp
next
  case (3 c d cs)
  show ?case
  proof (cases "c = CR \<and> d = LF")
    case True
    with 3 show ?thesis by simp
  next
    case False
    obtain l ls where l: "split_crlf (d # cs) = l # ls"
      using split_crlf_nonempty [of "d # cs"] by (cases "split_crlf (d # cs)") auto
    have rest: "split_crlf (d # (cs @ CR # LF # ys)) = (l # ls) @ split_crlf ys"
      using 3(2) [OF False] l by simp
    have "split_crlf (c # d # (cs @ CR # LF # ys))
        = (case split_crlf (d # (cs @ CR # LF # ys)) of l # ls \<Rightarrow> (c # l) # ls | [] \<Rightarrow> [[c]])"
      by (subst split_crlf.simps(3)) (simp only: False if_False)
    also have "\<dots> = ((c # l) # ls) @ split_crlf ys"
      unfolding rest by simp
    also have "(c # l) # ls = split_crlf (c # d # cs)"
      by (subst split_crlf.simps(3)) (simp only: False if_False l list.case)
    finally show ?thesis by simp
  qed
qed

lemma split_crlf_line: "CR \<notin> set xs \<Longrightarrow> split_crlf xs = [xs]"
  by (induction xs rule: split_crlf.induct) auto

lemma split_crlf_unlines:
  assumes "\<forall>l\<in>set ls. CR \<notin> set l"
  shows "split_crlf (unlines ls @ rest) = ls @ split_crlf rest"
  using assms
proof (induction ls)
  case Nil
  show ?case by (simp add: unlines_def)
next
  case (Cons l ls)
  have "split_crlf (unlines (l # ls) @ rest) = split_crlf (l @ CR # LF # (unlines ls @ rest))"
    by (simp add: unlines_def CRLF_def)
  also have "\<dots> = split_crlf l @ split_crlf (unlines ls @ rest)"
    by (rule split_crlf_append)
  finally show ?case using Cons by (simp add: split_crlf_line)
qed

lemma split_crlf_unlines_all: "\<forall>l\<in>set ls. CR \<notin> set l \<Longrightarrow> split_crlf (unlines ls) = ls @ [[]]"
  using split_crlf_unlines [of ls "[]"] by simp



lemma unlines_append: "unlines (xs @ ys) = unlines xs @ unlines ys"
  by (simp add: unlines_def)

lemma unlines_concat: "concat (map unlines Ls) = unlines (concat Ls)"
  by (induction Ls) (simp_all add: unlines_def)

lemma join_terminated: "hs \<noteq> [] \<Longrightarrow> join sep hs @ sep = concat (map (\<lambda>l. l @ sep) hs)"
  by (induction sep hs rule: join.induct) simp_all

lemma join_unlines: "hs \<noteq> [] \<Longrightarrow> join CRLF hs @ CRLF = unlines hs"
  by (simp add: join_terminated unlines_def)

lemma header_block_split:
  assumes "\<forall>l\<in>set hs. l \<noteq> []"
  shows "header_block (hs @ [] # rest) = hs" and "body_block (hs @ [] # rest) = rest"
  using assms by (simp_all add: header_block_def body_block_def)






section \<open>The message that send builds\<close>






lemma make_boundary_world:
  "fs (snd (make_boundary tag w)) = fs w" "calls (snd (make_boundary tag w)) = calls w"
  by (simp_all add: make_boundary_def date_now_def random_part_def random_suffix_def Let_def)




lemma build_headers_nonempty: "build_headers args \<noteq> []"
  by (simp add: build_headers_def)




lemma add_attachments_ok:
  assumes "\<forall>a\<in>set as. existsSync w (at_path a)"
  shows "add_attachments w mb as email = Inr (email @ concat (map (attachment_text w mb) as))"
  using assms by (induction as arbitrary: email) simp_all


lemma attachment_text_unlines:
  "attachment_text w mb a = unlines ((''--'' @ mb) # attachment_part w a)"
  by (simp add: attachment_text_def attachment_part_def unlines_def Let_def content_type_of_def
      filename_of_def)

lemma attachment_part_fs: "fs w' = fs w \<Longrightarrow> attachment_part w' a = attachment_part w a"
  by (simp add: attachment_part_def)




lemma alternative_text_split:
  "split_crlf (alternative_text ab body html @ rest)
     = butlast (split_crlf (alternative_text ab body html)) @ split_crlf rest"
proof -
  let ?t1 = "alternatives ab body html @ ''--'' @ ab @ ''--'' @ CRLF"
  have t: "alternative_text ab body html = ?t1 @ CR # LF # []"
    by (simp add: alternative_text_def CRLF_def)
  have "split_crlf (alternative_text ab body html) = split_crlf ?t1 @ [[]]"
    unfolding t by (subst split_crlf_append) simp
  moreover have "split_crlf (alternative_text ab body html @ rest) = split_crlf ?t1 @ split_crlf rest"
    unfolding t using split_crlf_append [of ?t1 rest] by simp
  ultimately show ?thesis by simp
qed


text \<open>The message with attachments and an HTML body, as lines of text.\<close>

lemma build_email_mixed:
  assumes html: "truthy (a_htmlBody args)"
    and atts: "a_attachments args = Some as" "as \<noteq> []"
    and files: "\<forall>a\<in>set as. existsSync w (at_path a)"
  shows "\<exists>w2. fs w2 = fs w \<and> calls w2 = calls w \<and> build_email args w =
    (Inr (unlines (build_headers args @
            [''MIME-Version: 1.0'',
             ''Content-Type: multipart/mixed; boundary='' @ [DQ] @ mixed_boundary_of w @ [DQ],
             [],
             ''--'' @ mixed_boundary_of w,
             ''Content-Type: multipart/alternative; boundary='' @ [DQ] @ alternative_boundary_of w @ [DQ],
             []])
          @ alternative_text (alternative_boundary_of w) (a_body args) (the (a_htmlBody args))
          @ unlines (concat (map (\<lambda>a. (''--'' @ mixed_boundary_of w) # attachment_part w a) as)
                     @ [''--'' @ mixed_boundary_of w @ ''--''])), w2)"
proof -
  obtain mb w1 where m: "make_boundary ''Mixed'' w = (mb, w1)" by (cases "make_boundary ''Mixed'' w")
  obtain ab w2 where a: "make_boundary ''Alternative'' w1 = (ab, w2)" by (cases "make_boundary ''Alternative'' w1")
  have mb: "mixed_boundary_of w = mb" and ab: "alternative_boundary_of w = ab"
    using m a by (simp_all add: mixed_boundary_of_def alternative_boundary_of_def)
  have w1: "fs w1 = fs w" "calls w1 = calls w"
    using make_boundary_world [of "''Mixed''" w] m by simp_all
  have w2: "fs w2 = fs w" "calls w2 = calls w"
    using make_boundary_world [of "''Alternative''" w1] a w1 by simp_all
  have files2: "\<forall>a\<in>set as. existsSync w2 (at_path a)"
    using files w2 by (simp add: existsSync_def)
  have parts: "map (attachment_text w2 mb) as = map (\<lambda>a. unlines ((''--'' @ mb) # attachment_part w a)) as"
    using attachment_part_fs [OF w2(1)] by (simp add: attachment_text_unlines)
  have att: "concat (map (attachment_text w2 mb) as)
      = unlines (concat (map (\<lambda>a. (''--'' @ mb) # attachment_part w a) as))"
    unfolding parts by (simp add: unlines_concat [symmetric] comp_def)
  have "build_email args w =
    (Inr (join CRLF (build_headers args) @ CRLF @ ''MIME-Version: 1.0'' @ CRLF
                  @ ''Content-Type: multipart/mixed; boundary='' @ [DQ] @ mb @ [DQ]
                  @ CRLF @ CRLF @ ''--'' @ mb @ CRLF
                        @ ''Content-Type: multipart/alternative; boundary='' @ [DQ] @ ab @ [DQ]
                        @ CRLF @ CRLF
                        @ alternatives ab (a_body args) (the (a_htmlBody args))
                        @ ''--'' @ ab @ ''--'' @ CRLF @ CRLF
                        @ concat (map (attachment_text w2 mb) as) @ ''--'' @ mb @ ''--'' @ CRLF), w2)"
    using html atts m a by (simp add: build_email_def Let_def add_attachments_ok [OF files2])
  also have "join CRLF (build_headers args) @ CRLF @ ''MIME-Version: 1.0'' @ CRLF
                  @ ''Content-Type: multipart/mixed; boundary='' @ [DQ] @ mb @ [DQ]
                  @ CRLF @ CRLF @ ''--'' @ mb @ CRLF
                        @ ''Content-Type: multipart/alternative; boundary='' @ [DQ] @ ab @ [DQ]
                        @ CRLF @ CRLF
                        @ alternatives ab (a_body args) (the (a_htmlBody args))
                        @ ''--'' @ ab @ ''--'' @ CRLF @ CRLF
                        @ concat (map (attachment_text w2 mb) as) @ ''--'' @ mb @ ''--'' @ CRLF
     = unlines (build_headers args @
            [''MIME-Version: 1.0'',
             ''Content-Type: multipart/mixed; boundary='' @ [DQ] @ mb @ [DQ],
             [],
             ''--'' @ mb,
             ''Content-Type: multipart/alternative; boundary='' @ [DQ] @ ab @ [DQ],
             []])
          @ alternative_text ab (a_body args) (the (a_htmlBody args))
          @ unlines (concat (map (\<lambda>a. (''--'' @ mb) # attachment_part w a) as)
                     @ [''--'' @ mb @ ''--''])"
    unfolding att unlines_append alternative_text_def
    using join_unlines [OF build_headers_nonempty, of args, symmetric]
    by (simp add: unlines_def)
  finally show ?thesis using w2 mb ab by simp
qed

lemma sendEmail_sends:
  assumes client: "getGmailClient P w = (Inr gmail, w1)"
    and ok: "truthy (a_to args)" "truthy (a_subject args)" "truthy (a_body args) \<or> truthy (a_htmlBody args)"
    and built: "build_email args w1 = (Inr email, w2)"
  shows "calls (snd (sendEmail P args w)) = calls w2 @
     [MessagesSend \<lparr>sp_raw = encode_message email,
                     sp_threadId = (if truthy (a_threadId args) then a_threadId args else None)\<rparr>]"
  using assms
  by (cases "messages_send P gmail (calls w2) \<lparr>sp_raw = encode_message email,
                     sp_threadId = (if truthy (a_threadId args) then a_threadId args else None)\<rparr>")
     (auto simp add: sendEmail_def Let_def calls_issue)


lemma show_nat_demo:
  "show_nat 1700000000000 = ''1700000000000''" "show_nat 1700000000001 = ''1700000000001''"
  by (simp_all add: show_nat.simps digit_char_def char_of_eq_iff take_bit_eq_mod)

lemma demo_boundaries:
  "mixed_boundary_of demo_world = ''----=_Mixed_1700000000000_0az''"
  "alternative_boundary_of demo_world = ''----=_Alternative_1700000000001_1az''"
  by (simp_all add: mixed_boundary_of_def alternative_boundary_of_def make_boundary_def
      date_now_def random_part_def random_suffix_def demo_world_def Let_def show_nat_demo
      digit36_def char_of_eq_iff take_bit_eq_mod)

lemma demo_alternative_lines:
  "split_crlf (alternative_text ''----=_Alternative_1700000000001_1az'' (Some ''plain text'') ''<p>rich</p>'')
    = [''------=_Alternative_1700000000001_1az'',
       ''Content-Type: text/plain; charset=UTF-8'',
       ''Content-Transfer-Encoding: 7bit'',
       [],
       ''plain text------=_Alternative_1700000000001_1az'',
       ''Content-Type: text/html; charset=UTF-8'',
       ''Content-Transfer-Encoding: 7bit'',
       [],
       ''<p>rich</p>'',
       [],
       ''------=_Alternative_1700000000001_1az--'',
       [],
       []]"
proof -
  have "alternative_text ''----=_Alternative_1700000000001_1az'' (Some ''plain text'') ''<p>rich</p>''
    = unlines [''------=_Alternative_1700000000001_1az'',
       ''Content-Type: text/plain; charset=UTF-8'',
       ''Content-Transfer-Encoding: 7bit'',
       [],
       ''plain text------=_Alternative_1700000000001_1az'',
       ''Content-Type: text/html; charset=UTF-8'',
       ''Content-Transfer-Encoding: 7bit'',
       [],
       ''<p>rich</p>'',
       [],
       ''------=_Alternative_1700000000001_1az--'',
       []]"
    by (simp add: alternative_text_def alternatives_def plain_version_def truthy_def unlines_def)
  then show ?thesis
    by (simp add: split_crlf_unlines_all CR_def)
qed


lemma demo_file: "\<forall>a\<in>set [\<lparr>at_path = ''/tmp/a.bin'', at_filename = None, at_contentType = None\<rparr>].
    existsSync demo_world (at_path a)"
  by (simp add: existsSync_def demo_world_def)











section \<open>Send: the round trip of a message with attachments\<close>




text \<open>
  The other two conditions are needed as well. A body with a line that is the delimiter
  of the outer boundary makes the reader find three parts where there are an alternative
  part and one attachment; a missing attachment file ends the call with the error of
  line 391 before any payload is sent.
\<close>

lemma demo_collision_lines:
  "split_crlf (alternative_text ''----=_Alternative_1700000000001_1az''
      (Some (''see'' @ CRLF @ ''------=_Mixed_1700000000000_0az'' @ CRLF @ ''below'')) ''<p>rich</p>'')
    = [''------=_Alternative_1700000000001_1az'',
       ''Content-Type: text/plain; charset=UTF-8'',
       ''Content-Transfer-Encoding: 7bit'',
       [],
       ''see'',
       ''------=_Mixed_1700000000000_0az'',
       ''below------=_Alternative_1700000000001_1az'',
       ''Content-Type: text/html; charset=UTF-8'',
       ''Content-Transfer-Encoding: 7bit'',
       [],
       ''<p>rich</p>'',
       [],
       ''------=_Alternative_1700000000001_1az--'',
       [],
       []]"
proof -
  have "alternative_text ''----=_Alternative_1700000000001_1az''
      (Some (''see'' @ CRLF @ ''------=_Mixed_1700000000000_0az'' @ CRLF @ ''below'')) ''<p>rich</p>''
    = unlines [''------=_Alternative_1700000000001_1az'',
       ''Content-Type: text/plain; charset=UTF-8'',
       ''Content-Transfer-Encoding: 7bit'',
       [],
       ''see'',
       ''------=_Mixed_1700000000000_0az'',
       ''below------=_Alternative_1700000000001_1az'',
       ''Content-Type: text/html; charset=UTF-8'',
       ''Content-Transfer-Encoding: 7bit'',
       [],
       ''<p>rich</p>'',
       [],
       ''------=_Alternative_1700000000001_1az--'',
       []]"
    by (simp add: alternative_text_def alternatives_def plain_version_def truthy_def unlines_def CRLF_def)
  then show ?thesis
    by (simp add: split_crlf_unlines_all CR_def)
qed

lemma demo_collision:
  "map (map_option length \<circ> read_payload)
     (sent_payloads (calls (snd (sendEmail demo_platform demo_send_collision demo_world))))
   = [Some 3]"
proof -
  let ?a = "\<lparr>at_path = ''/tmp/a.bin'', at_filename = None, at_contentType = None\<rparr>"
  let ?mb = "''----=_Mixed_1700000000000_0az''" and ?ab = "''----=_Alternative_1700000000001_1az''"
  let ?body = "Some (''see'' @ CRLF @ ''------=_Mixed_1700000000000_0az'' @ CRLF @ ''below'')"
  have f: "truthy (a_to demo_send_collision)" "truthy (a_subject demo_send_collision)"
    "truthy (a_body demo_send_collision)" "truthy (a_htmlBody demo_send_collision)"
    "a_attachments demo_send_collision = Some [?a]"
    "a_body demo_send_collision = ?body" "the (a_htmlBody demo_send_collision) = ''<p>rich</p>''"
    by (simp_all add: demo_send_collision_def demo_send_def no_args_def truthy_def)
  have hs: "build_headers demo_send_collision = [''To: a@example.com'', ''Subject: Hi'']"
    by (simp add: build_headers_def demo_send_collision_def demo_send_def no_args_def truthy_def)
  have part: "attachment_part demo_world ?a =
     [''Content-Type: application/octet-stream'',
      ''Content-Disposition: attachment; filename='' @ [DQ] @ ''a.bin'' @ [DQ],
      ''Content-Transfer-Encoding: base64'', [], ''aGk='', []]"
    by (simp add: attachment_part_def content_type_of_def filename_of_def basename_def truthy_def
        demo_world_def b64_char_def Let_def char_of_eq_iff take_bit_eq_mod)
  let ?head = "[''To: a@example.com'', ''Subject: Hi'', ''MIME-Version: 1.0'',
             ''Content-Type: multipart/mixed; boundary='' @ [DQ] @ ?mb @ [DQ]]"
  let ?first = "[''--'' @ ?mb,
             ''Content-Type: multipart/alternative; boundary='' @ [DQ] @ ?ab @ [DQ],
             []]"
  let ?tail = "(''--'' @ ?mb) # attachment_part demo_world ?a @ [''--'' @ ?mb @ ''--'']"
  let ?email = "unlines (?head @ [] # ?first) @ alternative_text ?ab ?body ''<p>rich</p>'' @ unlines ?tail"
  obtain w2 where w2: "calls w2 = calls demo_world"
    and built: "build_email demo_send_collision demo_world = (Inr ?email, w2)"
    using build_email_mixed [OF f(4) f(5) _ demo_file]
    by (auto simp add: hs f(6,7) demo_boundaries)
  have sent: "calls (snd (sendEmail demo_platform demo_send_collision demo_world))
      = [MessagesSend \<lparr>sp_raw = encode_message ?email,
           sp_threadId = (if truthy (a_threadId demo_send_collision)
                          then a_threadId demo_send_collision else None)\<rparr>]"
    using sendEmail_sends [OF demo_getGmailClient f(1,2) _ built] f(3) w2 demo_calls by simp
  have "split_crlf (unlines ?tail) = ?tail @ [[]]"
    by (rule split_crlf_unlines_all) (simp add: part CR_def DQ_def)
  moreover have "split_crlf (unlines (?head @ [] # ?first) @ rest) = (?head @ [] # ?first) @ split_crlf rest" for rest
    by (rule split_crlf_unlines) (simp add: CR_def DQ_def)
  ultimately have lines: "split_crlf ?email = ?head @ [] # (?first
      @ butlast (split_crlf (alternative_text ?ab ?body ''<p>rich</p>'')) @ ?tail @ [[]])"
    using alternative_text_split by simp
  have hb: "header_block (split_crlf ?email) = ?head"
    and bb: "body_block (split_crlf ?email) = ?first
      @ butlast (split_crlf (alternative_text ?ab ?body ''<p>rich</p>'')) @ ?tail @ [[]]"
    unfolding lines by (rule header_block_split; simp)+
  have version: "field_value ''MIME-Version'' (header_block (split_crlf ?email)) = Some ''1.0''"
    by (simp only: hb) (simp add: field_value_def)
  have ctype: "field_value ''Content-Type'' (header_block (split_crlf ?email))
      = Some (''multipart/mixed; boundary='' @ [DQ] @ ?mb @ [DQ])"
    by (simp only: hb) (simp add: field_value_def)
  have boundary: "boundary_of ''mixed'' (''multipart/mixed; boundary='' @ [DQ] @ ?mb @ [DQ]) = Some ?mb"
    by (simp add: boundary_of_def DQ_def Let_def)
  have "map_option length (skip_preamble ?mb (body_block (split_crlf ?email))) = Some 3"
    apply (simp only: bb)
    apply (simp only: demo_collision_lines part)
    apply (simp add: is_close_def is_delimiter_def)
    done
  then have "map_option length (read_payload (encode_message ?email)) = Some 3"
    by (simp only: read_payload_def base64url_roundtrip Let_def version parse_multipart_def ctype
        option.case boundary) simp
  with sent show ?thesis by simp
qed

lemma demo_missing_file:
  "fst (sendEmail demo_platform demo_send_missing demo_world)
     = Inl (Error ''Attachment file not found: /tmp/none'')"
  "sent_payloads (calls (snd (sendEmail demo_platform demo_send_missing demo_world))) = []"
proof -
  obtain mb w1 where m: "make_boundary ''Mixed'' demo_world = (mb, w1)"
    by (cases "make_boundary ''Mixed'' demo_world")
  obtain ab w2 where a: "make_boundary ''Alternative'' w1 = (ab, w2)"
    by (cases "make_boundary ''Alternative'' w1")
  have w2: "fs w2 = fs demo_world" "calls w2 = []"
    using make_boundary_world [of "''Mixed''" demo_world] make_boundary_world [of "''Alternative''" w1]
      m a demo_calls by simp_all
  have missing: "\<not> existsSync w2 ''/tmp/none''"
    by (simp add: existsSync_def w2) (simp add: demo_world_def)
  have "build_email demo_send_missing demo_world
      = (Inl (Error ''Attachment file not found: /tmp/none''), w2)"
    using m a missing
    by (simp add: build_email_def demo_send_missing_def demo_send_def no_args_def truthy_def Let_def)
  then have "sendEmail demo_platform demo_send_missing demo_world
      = (Inl (Error ''Attachment file not found: /tmp/none''), w2)"
    by (simp add: sendEmail_def demo_getGmailClient)
       (simp add: demo_send_missing_def demo_send_def no_args_def truthy_def)
  then show "fst (sendEmail demo_platform demo_send_missing demo_world)
     = Inl (Error ''Attachment file not found: /tmp/none'')"
    and "sent_payloads (calls (snd (sendEmail demo_platform demo_send_missing demo_world))) = []"
    using w2 by simp_all
qed

text \<open>
  The inner part of the message sent for \<open>demo_send\<close> reads as one alternative, not two:
  a plain body that is given is appended without a line break (line 370), so the
  delimiter before the HTML alternative does not start a line.
\<close>

lemma demo_inner_alternative:
  "parse_multipart ''alternative''
     (alternative_part ''----=_Alternative_1700000000001_1az'' (Some ''plain text'') ''<p>rich</p>'')
   = Some [[''Content-Type: text/plain; charset=UTF-8'',
            ''Content-Transfer-Encoding: 7bit'',
            [],
            ''plain text------=_Alternative_1700000000001_1az'',
            ''Content-Type: text/html; charset=UTF-8'',
            ''Content-Transfer-Encoding: 7bit'',
            [],
            ''<p>rich</p>'',
            []]]"
  unfolding alternative_part_def demo_alternative_lines
  by (simp add: parse_multipart_def header_block_def body_block_def field_value_def boundary_of_def
      is_close_def is_delimiter_def DQ_def Let_def)

section \<open>Send: the thread reference\<close>




end
